theory Spec2Isabelle
  imports Main "HOL-Library.Word" "HOL-Library.Signed_Division"
begin

section \<open>locksmithd: the reboot-coordination daemon (locksmithctl/daemon.go)\<close>

subsection \<open>Durations and the package constants\<close>

text \<open>
  Go's \<^verbatim>\<open>time.Duration\<close> is an \<^verbatim>\<open>int64\<close> count of nanoseconds: a 64-bit word,
  read as two's complement by \<open>sint\<close>, compared with the signed orders and multiplied
  with wrap-around.
\<close>

type_synonym duration = "64 word"

definition Nanosecond :: duration where "Nanosecond = 1"
definition Second :: duration where "Second = 1000000000 * Nanosecond"
definition Minute :: duration where "Minute = 60 * Second"
definition Hour :: duration where "Hour = 60 * Minute"

text \<open>Go's \<^verbatim>\<open>/\<close> on \<^verbatim>\<open>int64\<close>: signed division, truncating towards zero.\<close>

definition duration_div :: "duration \<Rightarrow> duration \<Rightarrow> duration" where
  "duration_div a b = word_of_int (sint a sdiv sint b)"

definition initialInterval :: duration where "initialInterval = Second * 5"
definition maxInterval :: duration where "maxInterval = Minute * 5"
definition loginsRebootDelay :: duration where "loginsRebootDelay = Minute * 5"

subsection \<open>Backoff policy\<close>

text \<open>
  \<^verbatim>\<open>
  func expBackoff(interval time.Duration) time.Duration {
      interval = interval * 2
      if interval > maxInterval {
          interval = maxInterval
      }
      return interval
  }
  \<close>
\<close>

definition expBackoff :: "duration \<Rightarrow> duration" where
  "expBackoff interval =
     (let interval = interval * 2
      in if maxInterval <s interval then maxInterval else interval)"

subsection \<open>Strategies and the monitored services\<close>

definition etcdServices :: "string list" where
  "etcdServices = [''etcd.service'', ''etcd2.service'']"

definition StrategyReboot :: string where "StrategyReboot = ''reboot''"
definition StrategyEtcdLock :: string where "StrategyEtcdLock = ''etcd-lock''"
definition StrategyBestEffort :: string where "StrategyBestEffort = ''best-effort''"
definition StrategyOff :: string where "StrategyOff = ''off''"

subsection \<open>Errors, messages and events\<close>

text \<open>
  A Go \<^verbatim>\<open>error\<close> value is an \<open>error option\<close>, \<open>None\<close> for \<^verbatim>\<open>nil\<close>. The two
  sentinels of package \<^verbatim>\<open>lock\<close> are compared by identity in the source; the
  errors the daemon builds itself with \<^verbatim>\<open>fmt.Errorf\<close> have a constructor each; any
  other error of a collaborator is \<open>ErrExternal\<close> with its text.
\<close>

datatype error =
    ErrExist                      \<comment> \<open>\<^verbatim>\<open>lock.ErrExist\<close>\<close>
  | ErrNotExist                   \<comment> \<open>\<^verbatim>\<open>lock.ErrNotExist\<close>\<close>
  | ErrEtcdClient error           \<comment> \<open>\<^verbatim>\<open>"Error initializing etcd client: %v"\<close>\<close>
  | ErrMachineID                  \<comment> \<open>\<^verbatim>\<open>"Cannot read machine-id"\<close>\<close>
  | ErrUnknownStrategy string     \<comment> \<open>\<^verbatim>\<open>"Unknown strategy: %s"\<close>\<close>
  | ErrExternal string

text \<open>The \<^verbatim>\<open>reason\<close> string of the reaper, by the statement that assigns it.\<close>

datatype reason =
    ReasonStatus "string list"    \<comment> \<open>\<^verbatim>\<open>"error checking status of %v"\<close>\<close>
  | ReasonInactive "string list"  \<comment> \<open>\<^verbatim>\<open>"%v are inactive and remote cluster not available"\<close>\<close>
  | ReasonSetupLock error         \<comment> \<open>\<^verbatim>\<open>"error setting up lock: " + err.Error()\<close>\<close>
  | ReasonError error             \<comment> \<open>\<^verbatim>\<open>err.Error()\<close>\<close>

text \<open>The texts the daemon prints or broadcasts, by format string, with their arguments.\<close>

datatype message =
    MsgRebootIn duration                 \<comment> \<open>\<^verbatim>\<open>"System reboot in %d minutes!"\<close>\<close>
  | MsgLoginsDetected duration           \<comment> \<open>\<^verbatim>\<open>"Logins detected, delaying reboot for %d minutes.\n"\<close>\<close>
  | MsgRebootSent                        \<comment> \<open>\<^verbatim>\<open>"Reboot sent. Going to sleep."\<close>\<close>
  | MsgRetryLock duration "error option" \<comment> \<open>\<^verbatim>\<open>"Retrying in %v. Error locking: %v\n"\<close>\<close>
  | MsgIsActive string                   \<comment> \<open>\<^verbatim>\<open>"%s is active\n"\<close>\<close>
  | MsgAreInactive "string list"         \<comment> \<open>\<^verbatim>\<open>"%v are inactive\n"\<close>\<close>
  | MsgError error                       \<comment> \<open>\<^verbatim>\<open>fmt.Fprintln(os.Stderr, err)\<close>\<close>
  | MsgNeverFinished                     \<comment> \<open>\<^verbatim>\<open>"Error: reboot attempt never finished"\<close>\<close>
  | MsgUnlockedExisting                  \<comment> \<open>\<^verbatim>\<open>"Unlocked existing lock for this machine"\<close>\<close>
  | MsgUnlockFailed reason duration      \<comment> \<open>\<^verbatim>\<open>"Unlocking old locks failed: %v. Retrying in %v.\n"\<close>\<close>
  | MsgStrategyOff string                \<comment> \<open>\<^verbatim>\<open>"Reboot strategy is %q - shutting down.\n"\<close>\<close>
  | MsgWindowBothOrNeither               \<comment> \<open>\<^verbatim>\<open>"either both or neither $REBOOT_WINDOW_START and ..."\<close>\<close>
  | MsgWindowParse error                 \<comment> \<open>\<^verbatim>\<open>"error parsing reboot window: %s\n"\<close>\<close>
  | MsgUpdate1Init error                 \<comment> \<open>\<^verbatim>\<open>"Error initializing update1 client:"\<close>\<close>
  | MsgLogin1Init error                  \<comment> \<open>\<^verbatim>\<open>"Error initializing login1 client:"\<close>\<close>
  | MsgGetStatus error                   \<comment> \<open>\<^verbatim>\<open>"Cannot get update engine status:"\<close>\<close>
  | MsgStarting string string            \<comment> \<open>\<^verbatim>\<open>"locksmithd starting currentOperation=%q strategy=%q\n"\<close>\<close>
  | MsgWaiting duration                  \<comment> \<open>\<^verbatim>\<open>"Waiting for %s to reboot.\n"\<close>\<close>

text \<open>A lock handle, \<^verbatim>\<open>lock.New(mID, elc)\<close>: the machine identity it is for.\<close>

datatype Lock = Lock_New string

text \<open>The session-manager connection \<^verbatim>\<open>*login1.Conn\<close>, an opaque handle.\<close>

datatype login1_Conn = Login1_Conn

text \<open>
  What the daemon does to the outside, in order: every call of a collaborator (with the
  result it gave), every sleep and every line printed.
\<close>

datatype event =
    EvEtcdActive "bool \<times> string \<times> error option"  \<comment> \<open>a liveness probe and its result\<close>
  | EvGetClient "error option"                    \<comment> \<open>\<^verbatim>\<open>getClient()\<close>\<close>
  | EvMachineID string                            \<comment> \<open>\<^verbatim>\<open>machineid.MachineID("/")\<close>\<close>
  | EvLockNew Lock                                \<comment> \<open>a lock handle is constructed\<close>
  | EvLock Lock "error option"                    \<comment> \<open>\<^verbatim>\<open>lck.Lock()\<close>, acquire\<close>
  | EvUnlock Lock "error option"                  \<comment> \<open>\<^verbatim>\<open>lck.Unlock()\<close>, release\<close>
  | EvBroadcast message "string list"             \<comment> \<open>the notice and the lines it was written to\<close>
  | EvSleep duration                              \<comment> \<open>\<^verbatim>\<open>time.Sleep\<close>\<close>
  | EvReboot login1_Conn bool                     \<comment> \<open>\<^verbatim>\<open>lgn.Reboot(false)\<close>\<close>
  | EvStdout message
  | EvStderr message
  | EvSelect duration bool                        \<comment> \<open>the reaper's \<^verbatim>\<open>select\<close>: timer armed, stop seen?\<close>
  | EvWgDone                                      \<comment> \<open>\<^verbatim>\<open>wg.Done()\<close>\<close>
  | EvSignalNotify                                \<comment> \<open>the termination handler is installed\<close>
  | EvUpdateEngineNew "error option"              \<comment> \<open>\<^verbatim>\<open>updateengine.New()\<close>\<close>
  | EvLogin1New "error option"                    \<comment> \<open>\<^verbatim>\<open>login1.New()\<close>\<close>
  | EvGoUnlockHeldLocks                           \<comment> \<open>\<^verbatim>\<open>go unlockHeldLocks(stop, &wg)\<close>\<close>
  | EvGoRebootNeededSignal                        \<comment> \<open>\<^verbatim>\<open>go ue.RebootNeededSignal(ch, stop)\<close>\<close>
  | EvGetStatus "error + string"                  \<comment> \<open>\<^verbatim>\<open>ue.GetStatus()\<close>\<close>
  | EvRecvRebootNeeded                            \<comment> \<open>\<^verbatim>\<open><-ch\<close> returned\<close>
  | EvCloseStop                                   \<comment> \<open>\<^verbatim>\<open>close(stop)\<close>\<close>

subsection \<open>The outside world\<close>

text \<open>
  systemd as one liveness probe sees it: whether \<^verbatim>\<open>dbus.New()\<close> fails, and what
  \<^verbatim>\<open>sys.GetUnitProperty(service, "ActiveState")\<close> gives for each unit, an error or the
  string value of the property.
\<close>

record systemd =
  dbus_New :: "error option"
  GetUnitProperty :: "string \<Rightarrow> error + string"

text \<open>
  The collaborators are outside the program, so each is a script: the function from the
  number of the call to what that call returns. A call reads the head of its script,
  leaves the rest (\<open>pop\<close>) and appends its event to the trace.
  \<^item> \<open>probes\<close>: systemd as seen by the successive calls of \<^verbatim>\<open>etcdActive\<close>;
  \<^item> \<open>clients\<close>: the error of the successive calls of \<^verbatim>\<open>getClient\<close>;
  \<^item> \<open>machine_ids\<close>: what \<^verbatim>\<open>machineid.MachineID("/")\<close> reads;
  \<^item> \<open>lock_results\<close>, \<open>unlock_results\<close>: the outcomes of acquire and release;
  \<^item> \<open>utmps\<close>: for each broadcast, the utmp entries read by \<^verbatim>\<open>getutent\<close>, each a line
    name with whether \<^verbatim>\<open>os.OpenFile("/dev/"+line, os.O_WRONLY, 0)\<close> gave a file;
  \<^item> \<open>selects\<close>: for each \<^verbatim>\<open>select\<close> of the reaper, whether the stop channel won.
\<close>

record world =
  probes :: "nat \<Rightarrow> systemd"
  clients :: "nat \<Rightarrow> error option"
  machine_ids :: "nat \<Rightarrow> string"
  lock_results :: "nat \<Rightarrow> error option"
  unlock_results :: "nat \<Rightarrow> error option"
  utmps :: "nat \<Rightarrow> (string \<times> bool) list"
  selects :: "nat \<Rightarrow> bool"
  trace :: "event list"

definition pop :: "(nat \<Rightarrow> 'a) \<Rightarrow> (nat \<Rightarrow> 'a)" where
  "pop f = (\<lambda>k. f (Suc k))"

definition emit :: "event \<Rightarrow> world \<Rightarrow> world" where
  "emit e w = w\<lparr>trace := trace w @ [e]\<rparr>"

definition Printf :: "message \<Rightarrow> world \<Rightarrow> world" where
  "Printf m w = emit (EvStdout m) w"

definition Fprint_stderr :: "message \<Rightarrow> world \<Rightarrow> world" where
  "Fprint_stderr m w = emit (EvStderr m) w"

definition time_Sleep :: "duration \<Rightarrow> world \<Rightarrow> world" where
  "time_Sleep d w = emit (EvSleep d) w"

definition lgn_Reboot :: "login1_Conn \<Rightarrow> bool \<Rightarrow> world \<Rightarrow> world" where
  "lgn_Reboot lgn askForAuth w = emit (EvReboot lgn askForAuth) w"

definition getClient :: "world \<Rightarrow> error option \<times> world" where
  "getClient w =
     (let err = clients w 0
      in (err, emit (EvGetClient err) (w\<lparr>clients := pop (clients w)\<rparr>)))"

definition MachineID :: "world \<Rightarrow> string \<times> world" where
  "MachineID w =
     (let mID = machine_ids w 0
      in (mID, emit (EvMachineID mID) (w\<lparr>machine_ids := pop (machine_ids w)\<rparr>)))"

definition Lock_Lock :: "Lock \<Rightarrow> world \<Rightarrow> error option \<times> world" where
  "Lock_Lock lck w =
     (let err = lock_results w 0
      in (err, emit (EvLock lck err) (w\<lparr>lock_results := pop (lock_results w)\<rparr>)))"

definition Lock_Unlock :: "Lock \<Rightarrow> world \<Rightarrow> error option \<times> world" where
  "Lock_Unlock lck w =
     (let err = unlock_results w 0
      in (err, emit (EvUnlock lck err) (w\<lparr>unlock_results := pop (unlock_results w)\<rparr>)))"

subsection \<open>broadcast\<close>

text \<open>
  \<^verbatim>\<open>
  for {
      utmp = C.getutent()
      if utmp == nil { break }
      line := C.GoString(&utmp.ut_line[0])
      tty, _ := os.OpenFile("/dev/"+line, os.O_WRONLY, 0)
      if tty == nil { continue }
      cnt++
      go func() { ... }()
  }
  return cnt
  \<close>
  The loop over the utmp entries, with the lines opened so far; \<open>cnt\<close> is their number
  (a Go \<^verbatim>\<open>uint\<close>, which a count of utmp entries does not leave: a \<open>nat\<close> here).
  The writes happen in detached goroutines: the event lists the lines they go to.
\<close>

fun broadcast_lines :: "(string \<times> bool) list \<Rightarrow> string list \<Rightarrow> string list" where
  "broadcast_lines [] opened = opened"
| "broadcast_lines ((line, tty) # utmp) opened =
     (if \<not> tty then broadcast_lines utmp opened
      else broadcast_lines utmp (opened @ [line]))"

definition broadcast :: "message \<Rightarrow> world \<Rightarrow> nat \<times> world" where
  "broadcast msg w =
     (let opened = broadcast_lines (utmps w 0) [];
          cnt = length opened
      in (cnt, emit (EvBroadcast msg opened) (w\<lparr>utmps := pop (utmps w)\<rparr>)))"

subsection \<open>rebootAndSleep and lockAndReboot\<close>

text \<open>
  \<^verbatim>\<open>
  delaymins := loginsRebootDelay / time.Minute
  lines := broadcast(fmt.Sprintf("System reboot in %d minutes!", delaymins))
  if 0 != lines {
      fmt.Printf("Logins detected, delaying reboot for %d minutes.\n", delaymins)
      time.Sleep(loginsRebootDelay)
  }
  lgn.Reboot(false)
  fmt.Println("Reboot sent. Going to sleep.")
  time.Sleep(time.Hour * 24 * 7)
  \<close>
  The model follows the run in which the process is still there after each call: the
  source returns from the week of sleep only then.
\<close>

definition rebootAndSleep :: "login1_Conn \<Rightarrow> world \<Rightarrow> world" where
  "rebootAndSleep lgn w =
     (let delaymins = duration_div loginsRebootDelay Minute;
          (lines, w) = broadcast (MsgRebootIn delaymins) w;
          w = (if 0 \<noteq> lines
               then time_Sleep loginsRebootDelay (Printf (MsgLoginsDetected delaymins) w)
               else w);
          w = lgn_Reboot lgn False w;
          w = Printf MsgRebootSent w
      in time_Sleep (Hour * 24 * 7) w)"

record rebooter =
  strategy :: string
  lgn :: login1_Conn

text \<open>
  \<^verbatim>\<open>
  interval := initialInterval
  for {
      err := lck.Lock()
      if err != nil && err != lock.ErrExist {
          interval = expBackoff(interval)
          fmt.Printf("Retrying in %v. Error locking: %v\n", interval, err)
          time.Sleep(interval)
          continue
      }
      rebootAndSleep(r.lgn)
      return
  }
  \<close>
  The loop has no bound: where it never returns, its value is \<open>None\<close>.
\<close>

partial_function (option) lockAndReboot_loop ::
  "rebooter \<Rightarrow> Lock \<Rightarrow> duration \<Rightarrow> world \<Rightarrow> world option" where
  "lockAndReboot_loop r lck interval w =
     (let (err, w) = Lock_Lock lck w
      in if err \<noteq> None \<and> err \<noteq> Some ErrExist
         then (let interval = expBackoff interval;
                   w = Printf (MsgRetryLock interval err) w;
                   w = time_Sleep interval w
               in lockAndReboot_loop r lck interval w)
         else Some (rebootAndSleep (lgn r) w))"

declare lockAndReboot_loop.simps [code]

definition lockAndReboot :: "rebooter \<Rightarrow> Lock \<Rightarrow> world \<Rightarrow> world option" where
  "lockAndReboot r lck w = lockAndReboot_loop r lck initialInterval w"

subsection \<open>setupLock and unlockIfHeld\<close>

text \<open>
  \<^verbatim>\<open>
  elc, err := getClient()
  if err != nil { return nil, fmt.Errorf("Error initializing etcd client: %v", err) }
  mID := machineid.MachineID("/")
  if mID == "" { return nil, fmt.Errorf("Cannot read machine-id") }
  lck = lock.New(mID, elc)
  return lck, nil
  \<close>
\<close>

definition setupLock :: "world \<Rightarrow> (error + Lock) \<times> world" where
  "setupLock w =
     (let (err, w) = getClient w
      in case err of
           Some e \<Rightarrow> (Inl (ErrEtcdClient e), w)
         | None \<Rightarrow>
             (let (mID, w) = MachineID w
              in if mID = '''' then (Inl ErrMachineID, w)
                 else (let lck = Lock_New mID in (Inr lck, emit (EvLockNew lck) w))))"

text \<open>
  \<^verbatim>\<open>
  err := lck.Unlock()
  if err == lock.ErrNotExist {
      return nil
  } else if err == nil {
      fmt.Println("Unlocked existing lock for this machine")
      return nil
  }
  return err
  \<close>
\<close>

definition unlockIfHeld :: "Lock \<Rightarrow> world \<Rightarrow> error option \<times> world" where
  "unlockIfHeld lck w =
     (let (err, w) = Lock_Unlock lck w
      in if err = Some ErrNotExist then (None, w)
         else if err = None then (None, Printf MsgUnlockedExisting w)
         else (err, w))"

subsection \<open>etcdActive: the liveness probe\<close>

text \<open>
  \<^verbatim>\<open>
  for _, service := range etcdServices {
      prop, err := sys.GetUnitProperty(service, "ActiveState")
      if err != nil { continue }
      switch prop.Value.Value().(string) {
      case "inactive":
          continue
      default:
          active = true
          name = service
          break
      }
  }
  \<close>
  The \<^verbatim>\<open>break\<close> is inside the \<^verbatim>\<open>switch\<close>: in Go it leaves the \<^verbatim>\<open>switch\<close>, not the
  \<^verbatim>\<open>for\<close>, so the loop goes on to the next service with \<open>active\<close> and \<open>name\<close> set.
  The \<^verbatim>\<open>err\<close> of the loop body is a new variable of that block: the function's named
  result \<^verbatim>\<open>err\<close> keeps the \<^verbatim>\<open>nil\<close> of \<^verbatim>\<open>dbus.New()\<close>. The property
  \<^verbatim>\<open>ActiveState\<close> of a unit is a string in systemd's bus interface, so the type
  assertion \<^verbatim>\<open>.(string)\<close> is on a string and the model takes the value as one.
\<close>

fun etcdActive_range ::
  "(string \<Rightarrow> error + string) \<Rightarrow> string list \<Rightarrow> bool \<times> string \<Rightarrow> bool \<times> string" where
  "etcdActive_range getProp [] (active, name) = (active, name)"
| "etcdActive_range getProp (service # services) (active, name) =
     (case getProp service of
        Inl err \<Rightarrow> etcdActive_range getProp services (active, name)
      | Inr prop \<Rightarrow>
          if prop = ''inactive'' then etcdActive_range getProp services (active, name)
          else etcdActive_range getProp services (True, service))"

definition etcdActive :: "systemd \<Rightarrow> bool \<times> string \<times> error option" where
  "etcdActive sys =
     (case dbus_New sys of
        Some err \<Rightarrow> (False, '''', Some err)
      | None \<Rightarrow>
          (let (active, name) = etcdActive_range (GetUnitProperty sys) etcdServices (False, '''')
           in (active, name, None)))"

text \<open>A call of \<^verbatim>\<open>etcdActive()\<close> in the world: it sees the next state of systemd.\<close>

definition etcdActive_call :: "world \<Rightarrow> (bool \<times> string \<times> error option) \<times> world" where
  "etcdActive_call w =
     (let res = etcdActive (probes w 0)
      in (res, emit (EvEtcdActive res) (w\<lparr>probes := pop (probes w)\<rparr>)))"

subsection \<open>useLock: the lock gate\<close>

text \<open>
  \<^verbatim>\<open>
  switch r.strategy {
  case StrategyBestEffort:
      active, name, err := etcdActive()
      if err != nil { return false, err }
      if active { fmt.Printf("%s is active\n", name); useLock = true }
      else { fmt.Printf("%v are inactive\n", etcdServices); useLock = false }
  case StrategyEtcdLock: useLock = true
  case StrategyReboot:   useLock = false
  default: return false, fmt.Errorf("Unknown strategy: %s", r.strategy)
  }
  return useLock, nil
  \<close>
\<close>

definition useLock :: "rebooter \<Rightarrow> world \<Rightarrow> (bool \<times> error option) \<times> world" where
  "useLock r w =
     (if strategy r = StrategyBestEffort then
        (let ((active, name, err), w) = etcdActive_call w
         in if err \<noteq> None then ((False, err), w)
            else if active then ((True, None), Printf (MsgIsActive name) w)
            else ((False, None), Printf (MsgAreInactive etcdServices) w))
      else if strategy r = StrategyEtcdLock then ((True, None), w)
      else if strategy r = StrategyReboot then ((False, None), w)
      else ((False, Some (ErrUnknownStrategy (strategy r))), w))"

subsection \<open>reboot: the executor\<close>

text \<open>
  \<^verbatim>\<open>
  useLock, err := r.useLock()
  if err != nil { fmt.Fprintln(os.Stderr, err); return 1 }
  if useLock {
      lck, err := setupLock()
      if err != nil { fmt.Fprintln(os.Stderr, err); return 1 }
      err = unlockIfHeld(lck)
      if err != nil { fmt.Fprintln(os.Stderr, err); return 1 }
      r.lockAndReboot(lck)
  }
  rebootAndSleep(r.lgn)
  fmt.Println("Error: reboot attempt never finished")
  return 1
  \<close>
  \<open>reboot_finish\<close> is the last three lines, reached from both branches.
\<close>

definition reboot_finish :: "rebooter \<Rightarrow> world \<Rightarrow> int \<times> world" where
  "reboot_finish r w = (1, Printf MsgNeverFinished (rebootAndSleep (lgn r) w))"

definition reboot :: "rebooter \<Rightarrow> world \<Rightarrow> (int \<times> world) option" where
  "reboot r w =
     (let ((useLock, err), w) = useLock r w
      in case err of
           Some e \<Rightarrow> Some (1, Fprint_stderr (MsgError e) w)
         | None \<Rightarrow>
             if useLock then
               (case setupLock w of
                  (Inl e, w) \<Rightarrow> Some (1, Fprint_stderr (MsgError e) w)
                | (Inr lck, w) \<Rightarrow>
                    (case unlockIfHeld lck w of
                       (Some e, w) \<Rightarrow> Some (1, Fprint_stderr (MsgError e) w)
                     | (None, w) \<Rightarrow>
                         (case lockAndReboot r lck w of
                            None \<Rightarrow> None
                          | Some w \<Rightarrow> Some (reboot_finish r w))))
             else Some (reboot_finish r w))"

subsection \<open>unlockHeldLocks: the stale-lock reaper\<close>

text \<open>
  The body of \<^verbatim>\<open>case <-time.After(interval):\<close>. \<open>None\<close> is its \<^verbatim>\<open>return\<close>;
  \<open>Some reason\<close> is a \<^verbatim>\<open>break\<close> out of the \<^verbatim>\<open>select\<close>, or its end, with the reason
  assigned. \<open>unlockHeldLocks_release\<close> is the part from \<^verbatim>\<open>setupLock()\<close> on.
  \<^verbatim>\<open>
  active, _, err := etcdActive()
  if err != nil {
      reason = fmt.Sprintf("error checking status of %v", etcdServices)
      break
  }
  if !active {
      _, err := getClient()
      if err != nil {
          reason = fmt.Sprintf("%v are inactive and remote cluster not available", etcdServices)
          break
      }
  }
  lck, err := setupLock()
  if err != nil { reason = "error setting up lock: " + err.Error(); break }
  err = unlockIfHeld(lck)
  if err == nil { return }
  reason = err.Error()
  \<close>
\<close>

definition unlockHeldLocks_release :: "world \<Rightarrow> reason option \<times> world" where
  "unlockHeldLocks_release w =
     (case setupLock w of
        (Inl e, w) \<Rightarrow> (Some (ReasonSetupLock e), w)
      | (Inr lck, w) \<Rightarrow>
          (case unlockIfHeld lck w of
             (None, w) \<Rightarrow> (None, w)
           | (Some e, w) \<Rightarrow> (Some (ReasonError e), w)))"

definition unlockHeldLocks_attempt :: "world \<Rightarrow> reason option \<times> world" where
  "unlockHeldLocks_attempt w =
     (let ((active, name, err), w) = etcdActive_call w
      in if err \<noteq> None then (Some (ReasonStatus etcdServices), w)
         else if \<not> active then
           (let (err, w) = getClient w
            in if err \<noteq> None then (Some (ReasonInactive etcdServices), w)
               else unlockHeldLocks_release w)
         else unlockHeldLocks_release w)"

text \<open>
  \<^verbatim>\<open>
  for {
      var reason string
      select {
      case <-stop:
          return
      case <-time.After(interval):
          ...
      }
      interval = expBackoff(interval)
      fmt.Printf("Unlocking old locks failed: %v. Retrying in %v.\n", reason, interval)
  }
  \<close>
  Which case of the \<^verbatim>\<open>select\<close> is taken is the world's: \<open>selects\<close>.
\<close>

definition select_stop :: "duration \<Rightarrow> world \<Rightarrow> bool \<times> world" where
  "select_stop interval w =
     (let stop = selects w 0
      in (stop, emit (EvSelect interval stop) (w\<lparr>selects := pop (selects w)\<rparr>)))"

partial_function (option) unlockHeldLocks_loop :: "duration \<Rightarrow> world \<Rightarrow> world option" where
  "unlockHeldLocks_loop interval w =
     (let (stop, w) = select_stop interval w
      in if stop then Some w
         else (case unlockHeldLocks_attempt w of
                 (None, w) \<Rightarrow> Some w
               | (Some reason, w) \<Rightarrow>
                   (let interval = expBackoff interval;
                        w = Printf (MsgUnlockFailed reason interval) w
                    in unlockHeldLocks_loop interval w)))"

declare unlockHeldLocks_loop.simps [code]

text \<open>\<^verbatim>\<open>defer wg.Done()\<close> runs at either \<^verbatim>\<open>return\<close>.\<close>

definition unlockHeldLocks :: "world \<Rightarrow> world option" where
  "unlockHeldLocks w =
     (case unlockHeldLocks_loop initialInterval w of
        None \<Rightarrow> None
      | Some w \<Rightarrow> Some (emit EvWgDone w))"

text \<open>
  The same loop pass by pass, for stating what a run of several passes does. One pass
  through the body of the \<^verbatim>\<open>for\<close> either returns, or ends in the backoff and the
  line printed and leaves the interval and the world of the next pass;
  \<open>unlockHeldLocks_iterations n\<close> makes at most \<open>n\<close> passes.
\<close>

datatype iteration = Returned world | Deferred duration world

definition unlockHeldLocks_iteration :: "duration \<Rightarrow> world \<Rightarrow> iteration" where
  "unlockHeldLocks_iteration interval w =
     (let (stop, w) = select_stop interval w
      in if stop then Returned w
         else (case unlockHeldLocks_attempt w of
                 (None, w) \<Rightarrow> Returned w
               | (Some reason, w) \<Rightarrow>
                   (let interval = expBackoff interval;
                        w = Printf (MsgUnlockFailed reason interval) w
                    in Deferred interval w)))"

fun unlockHeldLocks_iterations :: "nat \<Rightarrow> duration \<Rightarrow> world \<Rightarrow> iteration" where
  "unlockHeldLocks_iterations 0 interval w = Deferred interval w"
| "unlockHeldLocks_iterations (Suc n) interval w =
     (case unlockHeldLocks_iteration interval w of
        Returned w \<Rightarrow> Returned w
      | Deferred interval w \<Rightarrow> unlockHeldLocks_iterations n interval w)"

subsection \<open>runDaemon: the orchestrator\<close>

text \<open>
  What \<^verbatim>\<open>runDaemon\<close> reads and calls once: the process environment, and the
  collaborators whose code is in other packages, taken as parameters:
  \<^verbatim>\<open>timeutil.ParsePeriodic\<close> and \<^verbatim>\<open>period.DurationToStart(time.Now())\<close> over an
  abstract type \<open>'p\<close> of periods, \<^verbatim>\<open>updateengine.New()\<close>, \<^verbatim>\<open>login1.New()\<close>,
  \<^verbatim>\<open>ue.GetStatus()\<close> with the \<^verbatim>\<open>CurrentOperation\<close> it reports, the constant
  \<^verbatim>\<open>updateengine.UpdateStatusUpdatedNeedReboot\<close>, and whether a status ever arrives
  on \<^verbatim>\<open>ch\<close>.
\<close>

record 'p daemon_env =
  environ :: "string \<rightharpoonup> string"
  ParsePeriodic :: "string \<Rightarrow> string \<Rightarrow> error + 'p"
  DurationToStart :: "'p \<Rightarrow> duration"
  updateengine_New :: "error option"
  login1_New :: "error option"
  GetStatus :: "error + string"
  UpdateStatusUpdatedNeedReboot :: string
  reboot_needed_signal :: bool

text \<open>\<^verbatim>\<open>os.Getenv\<close>: the value, empty if the variable is not present.\<close>

definition Getenv :: "'p daemon_env \<Rightarrow> string \<Rightarrow> string" where
  "Getenv de key = (case environ de key of None \<Rightarrow> '''' | Some v \<Rightarrow> v)"

text \<open>
  \<^verbatim>\<open>
  if period != nil {
      now := time.Now()
      sleeptime := period.DurationToStart(now)
      if sleeptime > 0 {
          fmt.Printf("Waiting for %s to reboot.\n", sleeptime)
          time.Sleep(sleeptime)
      }
  }
  \<close>
\<close>

definition runDaemon_window :: "'p daemon_env \<Rightarrow> 'p option \<Rightarrow> world \<Rightarrow> world" where
  "runDaemon_window de period w =
     (case period of
        None \<Rightarrow> w
      | Some p \<Rightarrow>
          (let sleeptime = DurationToStart de p
           in if 0 <s sleeptime then time_Sleep sleeptime (Printf (MsgWaiting sleeptime) w)
              else w))"

text \<open>
  The source from \<^verbatim>\<open>shutdown := make(chan os.Signal, 1)\<close> to the end, for the
  strategy \<open>strat\<close> and the period read before it (the variable \<^verbatim>\<open>strategy\<close> of the
  source: the name is the field of \<open>rebooter\<close> here). The model is of the main goroutine in a run
  where no termination signal arrives. The reaper runs beside it from
  \<^verbatim>\<open>go unlockHeldLocks(stop, &wg)\<close> to \<^verbatim>\<open>wg.Wait()\<close>; the main goroutine calls none of
  the reaper's collaborators in between, so the reaper's run is entered in the trace at
  the join, its \<open>selects\<close> saying in which iteration it saw the stop. Where the main
  goroutine waits on \<^verbatim>\<open><-ch\<close> and no status ever arrives, the daemon does not return.
\<close>

definition runDaemon_run ::
  "'p daemon_env \<Rightarrow> string \<Rightarrow> 'p option \<Rightarrow> world \<Rightarrow> (int \<times> world) option" where
  "runDaemon_run de strat period w =
     (let w = emit EvSignalNotify w;
          w = emit (EvUpdateEngineNew (updateengine_New de)) w
      in case updateengine_New de of
           Some err \<Rightarrow> Some (1, Fprint_stderr (MsgUpdate1Init err) w)
         | None \<Rightarrow>
             (let w = emit (EvLogin1New (login1_New de)) w
              in case login1_New de of
                   Some err \<Rightarrow> Some (1, Fprint_stderr (MsgLogin1Init err) w)
                 | None \<Rightarrow>
                     (let w = (if strat \<noteq> StrategyReboot then emit EvGoUnlockHeldLocks w
                               else w);
                          w = emit EvGoRebootNeededSignal w;
                          r = \<lparr>strategy = strat, lgn = Login1_Conn\<rparr>;
                          w = emit (EvGetStatus (GetStatus de)) w
                      in case GetStatus de of
                           Inl err \<Rightarrow> Some (1, Fprint_stderr (MsgGetStatus err) w)
                         | Inr currentOperation \<Rightarrow>
                             (let w = Printf (MsgStarting currentOperation strat) w;
                                  wait = (currentOperation \<noteq> UpdateStatusUpdatedNeedReboot de)
                              in if wait \<and> \<not> reboot_needed_signal de then None
                                 else
                                   (let w = (if wait then emit EvRecvRebootNeeded w else w);
                                        w = emit EvCloseStop w
                                    in case (if strat \<noteq> StrategyReboot
                                             then unlockHeldLocks w else Some w) of
                                         None \<Rightarrow> None
                                       | Some w \<Rightarrow>
                                           reboot r (runDaemon_window de period w))))))"

text \<open>
  \<^verbatim>\<open>
  strategy := os.Getenv("REBOOT_STRATEGY")
  if strategy == "" { strategy = StrategyBestEffort }
  if strategy == StrategyOff {
      fmt.Fprintf(os.Stderr, "Reboot strategy is %q - shutting down.\n", strategy)
      return 0
  }
  startw := os.Getenv("REBOOT_WINDOW_START")
  lengthw := os.Getenv("REBOOT_WINDOW_LENGTH")
  if (startw == "") != (lengthw == "") {
      fmt.Fprintln(os.Stderr, "either both or neither ... must be set")
      return 1
  }
  if startw != "" && lengthw != "" {
      p, err := timeutil.ParsePeriodic(startw, lengthw)
      if err != nil {
          fmt.Fprintf(os.Stderr, "error parsing reboot window: %s\n", err)
          return 1
      }
      period = p
  }
  \<close>
\<close>

definition runDaemon_strategy :: "'p daemon_env \<Rightarrow> string" where
  "runDaemon_strategy de =
     (let strat = Getenv de ''REBOOT_STRATEGY''
      in if strat = '''' then StrategyBestEffort else strat)"

definition runDaemon :: "'p daemon_env \<Rightarrow> world \<Rightarrow> (int \<times> world) option" where
  "runDaemon de w =
     (let strat = runDaemon_strategy de
      in if strat = StrategyOff then Some (0, Fprint_stderr (MsgStrategyOff strat) w)
         else
           (let startw = Getenv de ''REBOOT_WINDOW_START'';
                lengthw = Getenv de ''REBOOT_WINDOW_LENGTH''
            in if (startw = '''') \<noteq> (lengthw = '''')
               then Some (1, Fprint_stderr MsgWindowBothOrNeither w)
               else if startw \<noteq> '''' \<and> lengthw \<noteq> '''' then
                 (case ParsePeriodic de startw lengthw of
                    Inl err \<Rightarrow> Some (1, Fprint_stderr (MsgWindowParse err) w)
                  | Inr p \<Rightarrow> runDaemon_run de strat (Some p) w)
               else runDaemon_run de strat None w))"

subsection \<open>Reading a trace\<close>

fun is_acquire :: "event \<Rightarrow> bool" where
  "is_acquire (EvLock lck err) = True"
| "is_acquire _ = False"

fun is_release :: "event \<Rightarrow> bool" where
  "is_release (EvUnlock lck err) = True"
| "is_release _ = False"

fun is_handle :: "event \<Rightarrow> bool" where
  "is_handle (EvLockNew lck) = True"
| "is_handle _ = False"

fun is_reboot :: "event \<Rightarrow> bool" where
  "is_reboot (EvReboot conn askForAuth) = True"
| "is_reboot _ = False"

definition acquires :: "world \<Rightarrow> nat" where
  "acquires w = length (filter is_acquire (trace w))"

definition releases :: "world \<Rightarrow> nat" where
  "releases w = length (filter is_release (trace w))"

definition handles :: "world \<Rightarrow> nat" where
  "handles w = length (filter is_handle (trace w))"

definition reboots :: "world \<Rightarrow> nat" where
  "reboots w = length (filter is_reboot (trace w))"

text \<open>The durations slept, in order.\<close>

fun sleep_of :: "event \<Rightarrow> duration list" where
  "sleep_of (EvSleep d) = [d]"
| "sleep_of _ = []"

definition slept :: "world \<Rightarrow> duration list" where
  "slept w = concat (map sleep_of (trace w))"

text \<open>An acquire outcome the executor retries on: an error other than \<^verbatim>\<open>lock.ErrExist\<close>.\<close>

definition acquire_fails :: "error option \<Rightarrow> bool" where
  "acquire_fails err = (err \<noteq> None \<and> err \<noteq> Some ErrExist)"

text \<open>
  The worlds in which the body of the reaper's timer case gets to \<^verbatim>\<open>lck.Unlock()\<close>: the
  probe has no error, \<^verbatim>\<open>getClient()\<close> succeeds each time it is called (once in
  \<^verbatim>\<open>setupLock\<close>, and once before it when the service is inactive) and the machine id
  is not empty.
\<close>

definition release_attempted :: "world \<Rightarrow> bool" where
  "release_attempted w =
     (snd (snd (etcdActive (probes w 0))) = None \<and> clients w 0 = None \<and>
      (fst (etcdActive (probes w 0)) \<or> clients w 1 = None) \<and> machine_ids w 0 \<noteq> [])"

text \<open>A release outcome the reaper retries on: an error other than \<^verbatim>\<open>lock.ErrNotExist\<close>.\<close>

definition release_fails :: "error option \<Rightarrow> bool" where
  "release_fails err = (err \<noteq> None \<and> err \<noteq> Some ErrNotExist)"

text \<open>
  The events of a pass of the reaper that gets to the release while every
  \<^verbatim>\<open>getClient()\<close> succeeds, up to the release: the timer, the probe, \<^verbatim>\<open>getClient()\<close>
  once for an active service and twice for an inactive one, the machine id, the handle
  and \<^verbatim>\<open>lck.Unlock()\<close> with its outcome.
\<close>

definition release_pass :: "duration \<Rightarrow> systemd \<Rightarrow> string \<Rightarrow> error option \<Rightarrow> event list" where
  "release_pass interval sys mID err =
     [EvSelect interval False, EvEtcdActive (etcdActive sys)] @
     replicate (if fst (etcdActive sys) then 1 else 2) (EvGetClient None) @
     [EvMachineID mID, EvLockNew (Lock_New mID), EvUnlock (Lock_New mID) err]"

text \<open>A unit the probe counts: its property was read and is not \<^verbatim>\<open>"inactive"\<close>.\<close>

definition service_active :: "systemd \<Rightarrow> string \<Rightarrow> bool" where
  "service_active sys service =
     (case GetUnitProperty sys service of Inl err \<Rightarrow> False | Inr prop \<Rightarrow> prop \<noteq> ''inactive'')"

subsection \<open>Some worlds\<close>

definition systemd_inactive :: systemd where
  "systemd_inactive = \<lparr>dbus_New = None, GetUnitProperty = (\<lambda>service. Inr ''inactive'')\<rparr>"

definition systemd_etcd2 :: systemd where
  "systemd_etcd2 =
     \<lparr>dbus_New = None,
      GetUnitProperty = (\<lambda>service. if service = ''etcd2.service'' then Inr ''active''
                                    else Inr ''inactive'')\<rparr>"

definition systemd_both :: systemd where
  "systemd_both = \<lparr>dbus_New = None, GetUnitProperty = (\<lambda>service. Inr ''active'')\<rparr>"

definition systemd_no_bus :: systemd where
  "systemd_no_bus =
     \<lparr>dbus_New = Some (ErrExternal ''dial unix /var/run/dbus/system_bus_socket''),
      GetUnitProperty = (\<lambda>service. Inr ''active'')\<rparr>"

definition systemd_no_units :: systemd where
  "systemd_no_units =
     \<lparr>dbus_New = None, GetUnitProperty = (\<lambda>service. Inl (ErrExternal ''no such unit''))\<rparr>"

text \<open>
  A machine with etcd inactive, the store reachable, no lock held, nobody logged in, and
  no stop sent to the reaper.
\<close>

definition world0 :: world where
  "world0 =
     \<lparr>probes = (\<lambda>k. systemd_inactive),
      clients = (\<lambda>k. None),
      machine_ids = (\<lambda>k. ''2b1a7e1d3c4f4a5b8c6d7e8f9a0b1c2d''),
      lock_results = (\<lambda>k. None),
      unlock_results = (\<lambda>k. Some ErrNotExist),
      utmps = (\<lambda>k. []),
      selects = (\<lambda>k. False),
      trace = []\<rparr>"

text \<open>The lock service fails acquisition twice, then succeeds.\<close>

definition world_fail_twice :: world where
  "world_fail_twice =
     world0\<lparr>lock_results := (\<lambda>k. if k < 2 then Some (ErrExternal ''timeout'') else None)\<rparr>"

text \<open>The lock service never lets the lock be acquired.\<close>

definition world_fail_always :: world where
  "world_fail_always = world0\<lparr>lock_results := (\<lambda>k. Some (ErrExternal ''timeout''))\<rparr>"

text \<open>Two users logged in, one on a terminal that cannot be opened.\<close>

definition world_logins :: world where
  "world_logins = world0\<lparr>utmps := (\<lambda>k. [(''tty1'', True), (''pts/0'', False), (''pts/1'', True)])\<rparr>"

text \<open>etcd2 active on this machine.\<close>

definition world_active :: world where
  "world_active = world0\<lparr>probes := (\<lambda>k. systemd_etcd2)\<rparr>"

text \<open>The system bus cannot be reached.\<close>

definition world_no_bus :: world where
  "world_no_bus = world0\<lparr>probes := (\<lambda>k. systemd_no_bus)\<rparr>"

text \<open>The bus is there, but no unit can be queried.\<close>

definition world_no_units :: world where
  "world_no_units = world0\<lparr>probes := (\<lambda>k. systemd_no_units)\<rparr>"

text \<open>etcd inactive and the remote cluster not available.\<close>

definition world_no_store :: world where
  "world_no_store = world0\<lparr>clients := (\<lambda>k. Some (ErrExternal ''connection refused''))\<rparr>"

text \<open>The first release fails with another error, the second finds the lock gone.\<close>

definition world_unlock_retry :: world where
  "world_unlock_retry =
     world0\<lparr>unlock_results := (\<lambda>k. if k = 0 then Some (ErrExternal ''timeout'')
                                     else Some ErrNotExist)\<rparr>"

text \<open>The bus cannot be reached; the stop arrives at the third timer.\<close>

definition world_no_bus_stop :: world where
  "world_no_bus_stop = world_no_bus\<lparr>selects := (\<lambda>k. 2 \<le> k)\<rparr>"

text \<open>etcd inactive and the store unreachable; the stop arrives at the third timer.\<close>

definition world_no_store_stop :: world where
  "world_no_store_stop = world_no_store\<lparr>selects := (\<lambda>k. 2 \<le> k)\<rparr>"

text \<open>etcd2 active and the store unreachable; the stop arrives at the second timer.\<close>

definition world_active_no_store :: world where
  "world_active_no_store =
     world_active\<lparr>clients := (\<lambda>k. Some (ErrExternal ''connection refused'')),
                  selects := (\<lambda>k. 1 \<le> k)\<rparr>"

text \<open>etcd2 active, the store reachable, and an empty machine id.\<close>

definition world_active_no_id :: world where
  "world_active_no_id = world_active\<lparr>machine_ids := (\<lambda>k. [])\<rparr>"

text \<open>The release times out twice, the third finds the lock gone.\<close>

definition world_unlock_twice :: world where
  "world_unlock_twice =
     world0\<lparr>unlock_results := (\<lambda>k. if k < 2 then Some (ErrExternal ''timeout'')
                                     else Some ErrNotExist)\<rparr>"

text \<open>Environments: periods are the pair of strings, parsed when the start has a colon.\<close>

definition env0 :: "(string \<times> string) daemon_env" where
  "env0 =
     \<lparr>environ = Map.empty,
      ParsePeriodic = (\<lambda>start len. if CHR '':'' \<in> set start then Inr (start, len)
                                     else Inl (ErrExternal ''invalid start'')),
      DurationToStart = (\<lambda>p. 0),
      updateengine_New = None,
      login1_New = None,
      GetStatus = Inr ''UPDATE_STATUS_UPDATED_NEED_REBOOT'',
      UpdateStatusUpdatedNeedReboot = ''UPDATE_STATUS_UPDATED_NEED_REBOOT'',
      reboot_needed_signal = True\<rparr>"

definition env_partial :: "(string \<times> string) daemon_env" where
  "env_partial = env0\<lparr>environ := [''REBOOT_WINDOW_START'' \<mapsto> ''02:00'']\<rparr>"

definition env_malformed :: "(string \<times> string) daemon_env" where
  "env_malformed =
     env0\<lparr>environ := [''REBOOT_WINDOW_START'' \<mapsto> ''two'', ''REBOOT_WINDOW_LENGTH'' \<mapsto> ''1h'']\<rparr>"

definition env_off_partial :: "(string \<times> string) daemon_env" where
  "env_off_partial =
     env0\<lparr>environ := [''REBOOT_STRATEGY'' \<mapsto> ''off'', ''REBOOT_WINDOW_START'' \<mapsto> ''02:00'']\<rparr>"

section \<open>Properties\<close>

subsection \<open>Backoff policy\<close>

lemma sint_maxInterval: "sint maxInterval = 300000000000"
  by (simp add: maxInterval_def Minute_def Second_def Nanosecond_def)

lemma sint_initialInterval: "sint initialInterval = 5000000000"
  by (simp add: initialInterval_def Second_def Nanosecond_def)

lemma sint_twice:
  assumes "- (2 ^ 62) \<le> sint (i :: duration)" and "sint i < 2 ^ 62"
  shows "sint (i * 2) = 2 * sint i"
proof -
  have "signed_take_bit 63 (2 * sint i) = 2 * sint i"
    using assms by (intro signed_take_bit_int_eq_self) simp_all
  then show ?thesis
    by (simp add: sint_word_ariths mult.commute)
qed

text \<open>
  C5, as stated: for every duration \<open>i\<close> with \<open>i \<ge> maxInterval\<close> the next interval is
  \<open>maxInterval\<close>. It fails where the doubling leaves \<^verbatim>\<open>int64\<close>: at \<open>i = 2\<^sup>6\<^sup>2\<close>
  nanoseconds, which is above \<open>maxInterval\<close>, \<^verbatim>\<open>interval * 2\<close> wraps to \<open>- 2\<^sup>6\<^sup>3\<close>, the
  comparison with \<open>maxInterval\<close> is false and the negative value is returned.
\<close>

theorem expBackoff_overflow_counterexample:
  "sint maxInterval \<le> sint (2 ^ 62 :: duration) \<and>
   sint (expBackoff (2 ^ 62)) = - (2 ^ 63) \<and>
   expBackoff (2 ^ 62) \<noteq> maxInterval"
  by (simp add: expBackoff_def maxInterval_def Minute_def Second_def Nanosecond_def
      word_sless_alt)

text \<open>
  C5, amended: for every duration \<open>i\<close>, \<open>expBackoff i\<close> is the smaller of \<open>maxInterval\<close>
  and the doubling of \<open>i\<close> as \<^verbatim>\<open>int64\<close> computes it; for every \<open>i\<close> whose doubling is
  in range, \<open>- 2\<^sup>6\<^sup>2 \<le> i < 2\<^sup>6\<^sup>2\<close>, that is \<open>min (2 * i) maxInterval\<close>, and in
  particular \<open>maxInterval\<close> for \<open>maxInterval \<le> i < 2\<^sup>6\<^sup>2\<close>. The function is total.
\<close>

theorem expBackoff_min:
  "sint (expBackoff i) = min (signed_take_bit 63 (2 * sint i)) (sint maxInterval) \<and>
   (- (2 ^ 62) \<le> sint i \<and> sint i < 2 ^ 62 \<longrightarrow>
      sint (expBackoff i) = min (2 * sint i) (sint maxInterval)) \<and>
   (sint maxInterval \<le> sint i \<and> sint i < 2 ^ 62 \<longrightarrow> expBackoff i = maxInterval)"
proof (intro conjI impI)
  show "sint (expBackoff i) = min (signed_take_bit 63 (2 * sint i)) (sint maxInterval)"
    by (simp add: expBackoff_def Let_def word_sless_alt sint_word_ariths min_def mult.commute)
next
  assume "- (2 ^ 62) \<le> sint i \<and> sint i < 2 ^ 62"
  then have "sint (i * 2) = 2 * sint i"
    by (simp add: sint_twice)
  then show "sint (expBackoff i) = min (2 * sint i) (sint maxInterval)"
    by (simp add: expBackoff_def Let_def word_sless_alt min_def)
next
  assume range: "sint maxInterval \<le> sint i \<and> sint i < 2 ^ 62"
  then have "- (2 ^ 62) \<le> sint i"
    by (simp add: sint_maxInterval)
  with range have "sint (i * 2) = 2 * sint i"
    by (simp add: sint_twice)
  with range show "expBackoff i = maxInterval"
    by (simp add: expBackoff_def Let_def word_sless_alt sint_maxInterval)
qed

theorem expBackoff_min_witness:
  "sint (expBackoff initialInterval) = 10000000000 \<and>
   sint (expBackoff (expBackoff maxInterval)) = 300000000000 \<and>
   expBackoff maxInterval = maxInterval"
proof -
  have first: "- (2 ^ 62) \<le> sint initialInterval \<and> sint initialInterval < 2 ^ 62"
    by (simp add: sint_initialInterval)
  have top: "sint maxInterval \<le> sint maxInterval \<and> sint maxInterval < 2 ^ 62"
    by (simp add: sint_maxInterval)
  from expBackoff_min [of initialInterval] first
  have "sint (expBackoff initialInterval) = min (2 * sint initialInterval) (sint maxInterval)"
    by blast
  moreover from expBackoff_min [of maxInterval] top
  have "expBackoff maxInterval = maxInterval"
    by blast
  ultimately show ?thesis
    by (simp add: sint_initialInterval sint_maxInterval)
qed

subsection \<open>The calls and the fields of the world\<close>

lemma pop_apply [simp]: "pop f k = f (Suc k)"
  by (simp add: pop_def)

lemma emit_fields [simp]:
  "probes (emit e w) = probes w"
  "clients (emit e w) = clients w"
  "machine_ids (emit e w) = machine_ids w"
  "lock_results (emit e w) = lock_results w"
  "unlock_results (emit e w) = unlock_results w"
  "utmps (emit e w) = utmps w"
  "selects (emit e w) = selects w"
  "trace (emit e w) = trace w @ [e]"
  by (simp_all add: emit_def)

lemma print_fields [simp]:
  "probes (Printf m w) = probes w"
  "clients (Printf m w) = clients w"
  "machine_ids (Printf m w) = machine_ids w"
  "lock_results (Printf m w) = lock_results w"
  "unlock_results (Printf m w) = unlock_results w"
  "utmps (Printf m w) = utmps w"
  "selects (Printf m w) = selects w"
  "trace (Printf m w) = trace w @ [EvStdout m]"
  "trace (Fprint_stderr m w) = trace w @ [EvStderr m]"
  by (simp_all add: Printf_def Fprint_stderr_def)

lemma sleep_fields [simp]:
  "probes (time_Sleep d w) = probes w"
  "clients (time_Sleep d w) = clients w"
  "machine_ids (time_Sleep d w) = machine_ids w"
  "lock_results (time_Sleep d w) = lock_results w"
  "unlock_results (time_Sleep d w) = unlock_results w"
  "utmps (time_Sleep d w) = utmps w"
  "selects (time_Sleep d w) = selects w"
  "trace (time_Sleep d w) = trace w @ [EvSleep d]"
  by (simp_all add: time_Sleep_def)

lemma reboot_fields [simp]:
  "probes (lgn_Reboot c a w) = probes w"
  "clients (lgn_Reboot c a w) = clients w"
  "machine_ids (lgn_Reboot c a w) = machine_ids w"
  "lock_results (lgn_Reboot c a w) = lock_results w"
  "unlock_results (lgn_Reboot c a w) = unlock_results w"
  "utmps (lgn_Reboot c a w) = utmps w"
  "selects (lgn_Reboot c a w) = selects w"
  "trace (lgn_Reboot c a w) = trace w @ [EvReboot c a]"
  by (simp_all add: lgn_Reboot_def)

lemma Lock_Lock_fields [simp]:
  "fst (Lock_Lock lck w) = lock_results w 0"
  "probes (snd (Lock_Lock lck w)) = probes w"
  "clients (snd (Lock_Lock lck w)) = clients w"
  "machine_ids (snd (Lock_Lock lck w)) = machine_ids w"
  "lock_results (snd (Lock_Lock lck w)) = pop (lock_results w)"
  "unlock_results (snd (Lock_Lock lck w)) = unlock_results w"
  "utmps (snd (Lock_Lock lck w)) = utmps w"
  "selects (snd (Lock_Lock lck w)) = selects w"
  "trace (snd (Lock_Lock lck w)) = trace w @ [EvLock lck (lock_results w 0)]"
  by (simp_all add: Lock_Lock_def Let_def)

lemma Lock_Unlock_fields [simp]:
  "fst (Lock_Unlock lck w) = unlock_results w 0"
  "probes (snd (Lock_Unlock lck w)) = probes w"
  "clients (snd (Lock_Unlock lck w)) = clients w"
  "machine_ids (snd (Lock_Unlock lck w)) = machine_ids w"
  "lock_results (snd (Lock_Unlock lck w)) = lock_results w"
  "unlock_results (snd (Lock_Unlock lck w)) = pop (unlock_results w)"
  "utmps (snd (Lock_Unlock lck w)) = utmps w"
  "selects (snd (Lock_Unlock lck w)) = selects w"
  "trace (snd (Lock_Unlock lck w)) = trace w @ [EvUnlock lck (unlock_results w 0)]"
  by (simp_all add: Lock_Unlock_def Let_def)

lemma getClient_fields [simp]:
  "fst (getClient w) = clients w 0"
  "probes (snd (getClient w)) = probes w"
  "clients (snd (getClient w)) = pop (clients w)"
  "machine_ids (snd (getClient w)) = machine_ids w"
  "lock_results (snd (getClient w)) = lock_results w"
  "unlock_results (snd (getClient w)) = unlock_results w"
  "utmps (snd (getClient w)) = utmps w"
  "selects (snd (getClient w)) = selects w"
  "trace (snd (getClient w)) = trace w @ [EvGetClient (clients w 0)]"
  by (simp_all add: getClient_def Let_def)

lemma MachineID_fields [simp]:
  "fst (MachineID w) = machine_ids w 0"
  "probes (snd (MachineID w)) = probes w"
  "clients (snd (MachineID w)) = clients w"
  "machine_ids (snd (MachineID w)) = pop (machine_ids w)"
  "lock_results (snd (MachineID w)) = lock_results w"
  "unlock_results (snd (MachineID w)) = unlock_results w"
  "utmps (snd (MachineID w)) = utmps w"
  "selects (snd (MachineID w)) = selects w"
  "trace (snd (MachineID w)) = trace w @ [EvMachineID (machine_ids w 0)]"
  by (simp_all add: MachineID_def Let_def)

lemma etcdActive_call_fields [simp]:
  "fst (etcdActive_call w) = etcdActive (probes w 0)"
  "probes (snd (etcdActive_call w)) = pop (probes w)"
  "clients (snd (etcdActive_call w)) = clients w"
  "machine_ids (snd (etcdActive_call w)) = machine_ids w"
  "lock_results (snd (etcdActive_call w)) = lock_results w"
  "unlock_results (snd (etcdActive_call w)) = unlock_results w"
  "utmps (snd (etcdActive_call w)) = utmps w"
  "selects (snd (etcdActive_call w)) = selects w"
  "trace (snd (etcdActive_call w)) = trace w @ [EvEtcdActive (etcdActive (probes w 0))]"
  by (simp_all add: etcdActive_call_def Let_def)

lemma select_stop_fields [simp]:
  "fst (select_stop interval w) = selects w 0"
  "probes (snd (select_stop interval w)) = probes w"
  "clients (snd (select_stop interval w)) = clients w"
  "machine_ids (snd (select_stop interval w)) = machine_ids w"
  "lock_results (snd (select_stop interval w)) = lock_results w"
  "unlock_results (snd (select_stop interval w)) = unlock_results w"
  "utmps (snd (select_stop interval w)) = utmps w"
  "selects (snd (select_stop interval w)) = pop (selects w)"
  "trace (snd (select_stop interval w)) = trace w @ [EvSelect interval (selects w 0)]"
  by (simp_all add: select_stop_def Let_def)

lemma broadcast_fields [simp]:
  "fst (broadcast msg w) = length (broadcast_lines (utmps w 0) [])"
  "probes (snd (broadcast msg w)) = probes w"
  "clients (snd (broadcast msg w)) = clients w"
  "machine_ids (snd (broadcast msg w)) = machine_ids w"
  "lock_results (snd (broadcast msg w)) = lock_results w"
  "unlock_results (snd (broadcast msg w)) = unlock_results w"
  "utmps (snd (broadcast msg w)) = pop (utmps w)"
  "selects (snd (broadcast msg w)) = selects w"
  "trace (snd (broadcast msg w)) = trace w @ [EvBroadcast msg (broadcast_lines (utmps w 0) [])]"
  by (simp_all add: broadcast_def Let_def)

lemma delaymins: "duration_div loginsRebootDelay Minute = 5"
  by (simp add: duration_div_def loginsRebootDelay_def Minute_def Second_def Nanosecond_def)

text \<open>What \<open>rebootAndSleep\<close> adds to the trace: the notice, the delay if it reached a line,
  the reboot request, and the week of sleep.\<close>

lemma trace_rebootAndSleep:
  "trace (rebootAndSleep c w) =
     trace w @
     EvBroadcast (MsgRebootIn 5) (broadcast_lines (utmps w 0) []) #
     (if 0 \<noteq> fst (broadcast (MsgRebootIn 5) w)
      then [EvStdout (MsgLoginsDetected 5), EvSleep loginsRebootDelay] else []) @
     [EvReboot c False, EvStdout MsgRebootSent, EvSleep (Hour * 24 * 7)]"
  by (simp add: rebootAndSleep_def delaymins Let_def case_prod_beta)

lemma rebootAndSleep_fields [simp]:
  "probes (rebootAndSleep c w) = probes w"
  "clients (rebootAndSleep c w) = clients w"
  "machine_ids (rebootAndSleep c w) = machine_ids w"
  "lock_results (rebootAndSleep c w) = lock_results w"
  "unlock_results (rebootAndSleep c w) = unlock_results w"
  "utmps (rebootAndSleep c w) = pop (utmps w)"
  "selects (rebootAndSleep c w) = selects w"
  by (simp_all add: rebootAndSleep_def Let_def case_prod_beta)

lemma count_rebootAndSleep [simp]:
  "acquires (rebootAndSleep c w) = acquires w"
  "releases (rebootAndSleep c w) = releases w"
  "handles (rebootAndSleep c w) = handles w"
  "reboots (rebootAndSleep c w) = Suc (reboots w)"
  by (simp_all add: acquires_def releases_def handles_def reboots_def trace_rebootAndSleep)

lemma count_print [simp]:
  "acquires (Printf m w) = acquires w"
  "releases (Printf m w) = releases w"
  "handles (Printf m w) = handles w"
  "reboots (Printf m w) = reboots w"
  "acquires (Fprint_stderr m w) = acquires w"
  "releases (Fprint_stderr m w) = releases w"
  "handles (Fprint_stderr m w) = handles w"
  "reboots (Fprint_stderr m w) = reboots w"
  "acquires (time_Sleep d w) = acquires w"
  "releases (time_Sleep d w) = releases w"
  "handles (time_Sleep d w) = handles w"
  "reboots (time_Sleep d w) = reboots w"
  by (simp_all add: acquires_def releases_def handles_def reboots_def)

lemma count_Lock_Lock [simp]:
  "acquires (snd (Lock_Lock lck w)) = Suc (acquires w)"
  "releases (snd (Lock_Lock lck w)) = releases w"
  "handles (snd (Lock_Lock lck w)) = handles w"
  "reboots (snd (Lock_Lock lck w)) = reboots w"
  by (simp_all add: acquires_def releases_def handles_def reboots_def)

lemma count_etcdActive_call [simp]:
  "acquires (snd (etcdActive_call w)) = acquires w"
  "releases (snd (etcdActive_call w)) = releases w"
  "handles (snd (etcdActive_call w)) = handles w"
  "reboots (snd (etcdActive_call w)) = reboots w"
  by (simp_all add: acquires_def releases_def handles_def reboots_def)

lemma count_getClient [simp]:
  "acquires (snd (getClient w)) = acquires w"
  "releases (snd (getClient w)) = releases w"
  "handles (snd (getClient w)) = handles w"
  "reboots (snd (getClient w)) = reboots w"
  by (simp_all add: acquires_def releases_def handles_def reboots_def)

lemma count_select_stop [simp]:
  "acquires (snd (select_stop interval w)) = acquires w"
  "releases (snd (select_stop interval w)) = releases w"
  "handles (snd (select_stop interval w)) = handles w"
  "reboots (snd (select_stop interval w)) = reboots w"
  by (simp_all add: acquires_def releases_def handles_def reboots_def)

lemma count_useLock [simp]:
  "acquires (snd (useLock r w)) = acquires w"
  "releases (snd (useLock r w)) = releases w"
  "handles (snd (useLock r w)) = handles w"
  "reboots (snd (useLock r w)) = reboots w"
  by (simp_all add: useLock_def Let_def case_prod_beta)

lemma count_emit:
  "acquires (emit e w) = acquires w + (if is_acquire e then 1 else 0)"
  "releases (emit e w) = releases w + (if is_release e then 1 else 0)"
  "handles (emit e w) = handles w + (if is_handle e then 1 else 0)"
  "reboots (emit e w) = reboots w + (if is_reboot e then 1 else 0)"
  by (simp_all add: acquires_def releases_def handles_def reboots_def)

lemma count_MachineID [simp]:
  "acquires (snd (MachineID w)) = acquires w"
  "releases (snd (MachineID w)) = releases w"
  "handles (snd (MachineID w)) = handles w"
  "reboots (snd (MachineID w)) = reboots w"
  by (simp_all add: acquires_def releases_def handles_def reboots_def)

lemma count_Lock_Unlock [simp]:
  "acquires (snd (Lock_Unlock lck w)) = acquires w"
  "releases (snd (Lock_Unlock lck w)) = Suc (releases w)"
  "handles (snd (Lock_Unlock lck w)) = handles w"
  "reboots (snd (Lock_Unlock lck w)) = reboots w"
  by (simp_all add: acquires_def releases_def handles_def reboots_def)

lemma count_setupLock [simp]:
  "acquires (snd (setupLock w)) = acquires w"
  "releases (snd (setupLock w)) = releases w"
  "reboots (snd (setupLock w)) = reboots w"
  by (simp_all add: setupLock_def Let_def case_prod_beta count_emit split: option.splits)

lemma count_unlockIfHeld [simp]:
  "acquires (snd (unlockIfHeld lck w)) = acquires w"
  "releases (snd (unlockIfHeld lck w)) = Suc (releases w)"
  "handles (snd (unlockIfHeld lck w)) = handles w"
  "reboots (snd (unlockIfHeld lck w)) = reboots w"
  by (simp_all add: unlockIfHeld_def Let_def case_prod_beta)

subsection \<open>The liveness probe and the lock gate\<close>

lemma etcdActive_range_active:
  "fst (etcdActive_range getProp services (active, name)) =
     (active \<or> (\<exists>service \<in> set services.
        case getProp service of Inl err \<Rightarrow> False | Inr prop \<Rightarrow> prop \<noteq> ''inactive''))"
  by (induction services arbitrary: active name) (auto split: sum.splits)

lemma etcdActive_range_name:
  "snd (etcdActive_range getProp services (active, name)) =
     (let hits = filter (\<lambda>service. case getProp service of Inl err \<Rightarrow> False
                                     | Inr prop \<Rightarrow> prop \<noteq> ''inactive'') services
      in if hits = [] then name else last hits)"
  by (induction services arbitrary: active name) (auto simp: Let_def split: sum.splits)

lemma etcdActive_ok:
  "dbus_New sys = None \<Longrightarrow>
   etcdActive sys = (\<exists>service \<in> set etcdServices. service_active sys service,
                     snd (etcdActive_range (GetUnitProperty sys) etcdServices (False, '''')), None)"
  using etcdActive_range_active [of "GetUnitProperty sys" etcdServices False "''''"]
  by (simp add: etcdActive_def service_active_def case_prod_beta)

lemma etcdActive_err:
  "dbus_New sys = Some e \<Longrightarrow> etcdActive sys = (False, '''', Some e)"
  by (simp add: etcdActive_def)

text \<open>
  C3: the probe goes through \<open>etcd.service\<close>, then \<open>etcd2.service\<close>, and the first
  active hit is to win. On the code it is the last one: with both units active the name
  returned is \<open>etcd2.service\<close>, since the \<^verbatim>\<open>break\<close> of the \<^verbatim>\<open>default\<close> case leaves
  the \<^verbatim>\<open>switch\<close> only and the loop overwrites \<open>name\<close> (see \<open>etcdActive_range_name\<close>).
  The flag is as claimed (\<open>etcdActive_ok\<close>).
\<close>

theorem etcdActive_both_active:
  "etcdActive systemd_both = (True, ''etcd2.service'', None)"
  by (simp add: etcdActive_def systemd_both_def etcdServices_def)

lemma fst_useLock_best:
  "strategy r = StrategyBestEffort \<Longrightarrow>
   fst (useLock r w) = (case etcdActive (probes w 0) of (active, name, err) \<Rightarrow>
       if err \<noteq> None then (False, err) else (active, None))"
  by (simp add: useLock_def etcdActive_call_def Let_def case_prod_beta)

lemma strategies_distinct:
  "StrategyBestEffort \<noteq> StrategyEtcdLock" "StrategyBestEffort \<noteq> StrategyReboot"
  "StrategyEtcdLock \<noteq> StrategyReboot" "StrategyOff \<noteq> StrategyReboot"
  "StrategyOff \<noteq> StrategyEtcdLock" "StrategyOff \<noteq> StrategyBestEffort"
  by (simp_all add: StrategyBestEffort_def StrategyEtcdLock_def StrategyReboot_def StrategyOff_def)

text \<open>
  C4: \<open>useLock\<close> returns \<open>(false, nil)\<close> for strategy \<open>reboot\<close> and \<open>(true, nil)\<close> for
  \<open>etcd-lock\<close>, whatever the world; for \<open>best-effort\<close> the error of the probe when it has
  one, and otherwise \<open>true\<close> exactly when one of the monitored units is active (its
  property read and not \<open>inactive\<close>); for any other strategy the error
  \<open>Unknown strategy\<close>.
\<close>

theorem useLock_gate:
  "(strategy r = StrategyReboot \<longrightarrow> fst (useLock r w) = (False, None)) \<and>
   (strategy r = StrategyEtcdLock \<longrightarrow> fst (useLock r w) = (True, None)) \<and>
   (strategy r = StrategyBestEffort \<longrightarrow>
      (\<forall>e. snd (snd (etcdActive (probes w 0))) = Some e \<longrightarrow> fst (useLock r w) = (False, Some e)) \<and>
      (snd (snd (etcdActive (probes w 0))) = None \<longrightarrow>
         fst (useLock r w) =
           (\<exists>service \<in> set etcdServices. service_active (probes w 0) service, None))) \<and>
   (strategy r \<noteq> StrategyReboot \<and> strategy r \<noteq> StrategyEtcdLock \<and>
    strategy r \<noteq> StrategyBestEffort \<longrightarrow>
      fst (useLock r w) = (False, Some (ErrUnknownStrategy (strategy r))))"
proof (intro conjI impI allI)
  assume "strategy r = StrategyReboot"
  then show "fst (useLock r w) = (False, None)"
    using strategies_distinct by (simp add: useLock_def)
next
  assume "strategy r = StrategyEtcdLock"
  then show "fst (useLock r w) = (True, None)"
    using strategies_distinct by (simp add: useLock_def)
next
  fix e
  assume "strategy r = StrategyBestEffort" and "snd (snd (etcdActive (probes w 0))) = Some e"
  then show "fst (useLock r w) = (False, Some e)"
    by (simp add: fst_useLock_best case_prod_beta)
next
  assume best: "strategy r = StrategyBestEffort"
    and ok: "snd (snd (etcdActive (probes w 0))) = None"
  from ok have "dbus_New (probes w 0) = None"
    by (cases "dbus_New (probes w 0)") (simp_all add: etcdActive_err)
  then show "fst (useLock r w) =
      (\<exists>service \<in> set etcdServices. service_active (probes w 0) service, None)"
    using best by (simp add: fst_useLock_best etcdActive_ok)
next
  assume "strategy r \<noteq> StrategyReboot \<and> strategy r \<noteq> StrategyEtcdLock \<and>
    strategy r \<noteq> StrategyBestEffort"
  then show "fst (useLock r w) = (False, Some (ErrUnknownStrategy (strategy r)))"
    by (simp add: useLock_def)
qed

theorem useLock_gate_witness:
  "fst (useLock \<lparr>strategy = ''reboot'', lgn = Login1_Conn\<rparr> world_active) = (False, None) \<and>
   fst (useLock \<lparr>strategy = ''etcd-lock'', lgn = Login1_Conn\<rparr> world_no_bus) = (True, None) \<and>
   fst (useLock \<lparr>strategy = ''best-effort'', lgn = Login1_Conn\<rparr> world_no_bus) =
     (False, Some (ErrExternal ''dial unix /var/run/dbus/system_bus_socket'')) \<and>
   fst (useLock \<lparr>strategy = ''best-effort'', lgn = Login1_Conn\<rparr> world_active) = (True, None) \<and>
   fst (useLock \<lparr>strategy = ''best-effort'', lgn = Login1_Conn\<rparr> world0) = (False, None) \<and>
   fst (useLock \<lparr>strategy = ''off'', lgn = Login1_Conn\<rparr> world0) =
     (False, Some (ErrUnknownStrategy ''off''))"
proof -
  let ?reboot = "\<lparr>strategy = ''reboot'', lgn = Login1_Conn\<rparr>"
  let ?lock = "\<lparr>strategy = ''etcd-lock'', lgn = Login1_Conn\<rparr>"
  let ?best = "\<lparr>strategy = ''best-effort'', lgn = Login1_Conn\<rparr>"
  let ?off = "\<lparr>strategy = ''off'', lgn = Login1_Conn\<rparr>"
  have "fst (useLock ?reboot world_active) = (False, None)"
    using useLock_gate [of ?reboot world_active] by (simp add: StrategyReboot_def)
  moreover have "fst (useLock ?lock world_no_bus) = (True, None)"
    using useLock_gate [of ?lock world_no_bus] by (simp add: StrategyEtcdLock_def)
  moreover have "fst (useLock ?best world_no_bus) =
      (False, Some (ErrExternal ''dial unix /var/run/dbus/system_bus_socket''))"
    using useLock_gate [of ?best world_no_bus]
    by (simp add: StrategyBestEffort_def world_no_bus_def systemd_no_bus_def etcdActive_def)
  moreover have "fst (useLock ?best world_active) = (True, None)"
    using useLock_gate [of ?best world_active]
    by (simp add: StrategyBestEffort_def world_active_def systemd_etcd2_def etcdActive_def
        etcdServices_def service_active_def)
  moreover have "fst (useLock ?best world0) = (False, None)"
    using useLock_gate [of ?best world0]
    by (simp add: StrategyBestEffort_def world0_def systemd_inactive_def etcdActive_def
        etcdServices_def service_active_def)
  moreover have "fst (useLock ?off world0) = (False, Some (ErrUnknownStrategy ''off''))"
    using useLock_gate [of ?off world0]
    by (simp add: StrategyBestEffort_def StrategyReboot_def StrategyEtcdLock_def)
  ultimately show ?thesis by blast
qed

text \<open>
  C10: the error of the probe is the error of \<^verbatim>\<open>dbus.New()\<close> and no other; a unit whose
  property cannot be read is passed over by the loop and does not count as active; so
  when every query fails the probe returns \<open>(false, "", nil)\<close>, and strategy
  \<open>best-effort\<close> then reboots without the lock: \<open>reboot\<close> goes from \<open>useLock\<close> straight
  to its last three lines.
\<close>

theorem etcdActive_errors:
  "snd (snd (etcdActive sys)) = dbus_New sys \<and>
   (isl (GetUnitProperty sys service) \<longrightarrow>
      \<not> service_active sys service \<and>
      etcdActive_range (GetUnitProperty sys) (service # services) (active, name) =
        etcdActive_range (GetUnitProperty sys) services (active, name)) \<and>
   (dbus_New sys = None \<longrightarrow>
      fst (etcdActive sys) = (\<exists>service \<in> set etcdServices. service_active sys service)) \<and>
   (dbus_New sys = None \<and> (\<forall>service \<in> set etcdServices. isl (GetUnitProperty sys service)) \<longrightarrow>
      etcdActive sys = (False, '''', None)) \<and>
   (strategy r = StrategyBestEffort \<and> dbus_New (probes w 0) = None \<and>
    (\<forall>service \<in> set etcdServices. isl (GetUnitProperty (probes w 0) service)) \<longrightarrow>
      fst (useLock r w) = (False, None) \<and>
      reboot r w = Some (reboot_finish r (snd (useLock r w))))"
proof (intro conjI impI)
  show "snd (snd (etcdActive sys)) = dbus_New sys"
    by (cases "dbus_New sys") (simp_all add: etcdActive_err etcdActive_ok)
next
  assume "isl (GetUnitProperty sys service)"
  then show "\<not> service_active sys service"
    by (auto simp: service_active_def split: sum.splits)
next
  assume "isl (GetUnitProperty sys service)"
  then show "etcdActive_range (GetUnitProperty sys) (service # services) (active, name) =
        etcdActive_range (GetUnitProperty sys) services (active, name)"
    by (auto split: sum.splits)
next
  assume "dbus_New sys = None"
  then show "fst (etcdActive sys) = (\<exists>service \<in> set etcdServices. service_active sys service)"
    by (simp add: etcdActive_ok)
next
  assume "dbus_New sys = None \<and> (\<forall>service \<in> set etcdServices. isl (GetUnitProperty sys service))"
  then show "etcdActive sys = (False, '''', None)"
    by (auto simp: etcdActive_def etcdServices_def split: sum.splits)
next
  assume a: "strategy r = StrategyBestEffort \<and> dbus_New (probes w 0) = None \<and>
    (\<forall>service \<in> set etcdServices. isl (GetUnitProperty (probes w 0) service))"
  then have "etcdActive (probes w 0) = (False, '''', None)"
    by (auto simp: etcdActive_def etcdServices_def split: sum.splits)
  with a show "fst (useLock r w) = (False, None)"
    by (simp add: fst_useLock_best)
  then show "reboot r w = Some (reboot_finish r (snd (useLock r w)))"
    by (simp add: reboot_def case_prod_beta)
qed

theorem etcdActive_errors_witness:
  "etcdActive systemd_no_units = (False, '''', None) \<and>
   snd (snd (etcdActive systemd_no_bus)) =
     Some (ErrExternal ''dial unix /var/run/dbus/system_bus_socket'') \<and>
   fst (useLock \<lparr>strategy = ''best-effort'', lgn = Login1_Conn\<rparr> world_no_units) = (False, None) \<and>
   acquires (snd (the (reboot \<lparr>strategy = ''best-effort'', lgn = Login1_Conn\<rparr> world_no_units))) = 0 \<and>
   \<not> service_active systemd_no_units ''etcd.service'' \<and>
   fst (etcdActive systemd_etcd2)"
proof -
  let ?best = "\<lparr>strategy = ''best-effort'', lgn = Login1_Conn\<rparr>"
  have units: "dbus_New systemd_no_units = None \<and>
      (\<forall>service \<in> set etcdServices. isl (GetUnitProperty systemd_no_units service))"
    by (simp add: systemd_no_units_def)
  have "etcdActive systemd_no_units = (False, '''', None)"
    using etcdActive_errors [of systemd_no_units] units by blast
  moreover have "snd (snd (etcdActive systemd_no_bus)) =
      Some (ErrExternal ''dial unix /var/run/dbus/system_bus_socket'')"
    using etcdActive_errors [of systemd_no_bus] by (simp add: systemd_no_bus_def)
  moreover have gate: "fst (useLock ?best world_no_units) = (False, None) \<and>
      reboot ?best world_no_units = Some (reboot_finish ?best (snd (useLock ?best world_no_units)))"
    using etcdActive_errors [of _ _ _ _ _ ?best world_no_units] units
    by (simp add: StrategyBestEffort_def world_no_units_def)
  moreover have "acquires (snd (reboot_finish ?best (snd (useLock ?best world_no_units)))) = 0"
    by (simp add: reboot_finish_def) (simp add: acquires_def world_no_units_def world0_def)
  moreover have "\<not> service_active systemd_no_units ''etcd.service''"
    using etcdActive_errors [where sys = systemd_no_units and service = "''etcd.service''"]
    by (simp add: systemd_no_units_def)
  moreover have "fst (etcdActive systemd_etcd2)"
    using etcdActive_errors [where sys = systemd_etcd2]
    by (simp add: systemd_etcd2_def service_active_def etcdServices_def)
  ultimately show ?thesis by simp
qed

subsection \<open>The executor\<close>

lemma broadcast_lines_filter:
  "broadcast_lines utmp opened = opened @ map fst (filter snd utmp)"
  by (induction utmp opened rule: broadcast_lines.induct) simp_all

lemma slept_simps [simp]:
  "slept (Printf m w) = slept w"
  "slept (time_Sleep d w) = slept w @ [d]"
  "slept (snd (Lock_Lock lck w)) = slept w"
  by (simp_all add: slept_def)

text \<open>
  C7: when the broadcast reached no line, \<open>rebootAndSleep\<close> goes from the notice straight
  to the reboot request; when it reached one or more, it prints the delay and sleeps
  \<open>loginsRebootDelay\<close>, five minutes, before the request. The count is the number of
  utmp lines that could be opened.
\<close>

theorem rebootAndSleep_delay:
  "fst (broadcast (MsgRebootIn 5) w) = length (filter snd (utmps w 0)) \<and>
   sint loginsRebootDelay = 5 * 60 * 1000000000 \<and>
   (fst (broadcast (MsgRebootIn 5) w) = 0 \<longrightarrow>
      trace (rebootAndSleep c w) =
        trace w @ [EvBroadcast (MsgRebootIn 5) [],
                   EvReboot c False, EvStdout MsgRebootSent, EvSleep (Hour * 24 * 7)]) \<and>
   (fst (broadcast (MsgRebootIn 5) w) \<noteq> 0 \<longrightarrow>
      trace (rebootAndSleep c w) =
        trace w @ [EvBroadcast (MsgRebootIn 5) (map fst (filter snd (utmps w 0))),
                   EvStdout (MsgLoginsDetected 5), EvSleep loginsRebootDelay,
                   EvReboot c False, EvStdout MsgRebootSent, EvSleep (Hour * 24 * 7)])"
proof (intro conjI impI)
  show "fst (broadcast (MsgRebootIn 5) w) = length (filter snd (utmps w 0))"
    by (simp add: broadcast_lines_filter)
  show "sint loginsRebootDelay = 5 * 60 * 1000000000"
    by (simp add: loginsRebootDelay_def Minute_def Second_def Nanosecond_def)
next
  assume "fst (broadcast (MsgRebootIn 5) w) = 0"
  then show "trace (rebootAndSleep c w) =
      trace w @ [EvBroadcast (MsgRebootIn 5) [],
                 EvReboot c False, EvStdout MsgRebootSent, EvSleep (Hour * 24 * 7)]"
    by (simp add: trace_rebootAndSleep)
next
  assume "fst (broadcast (MsgRebootIn 5) w) \<noteq> 0"
  then show "trace (rebootAndSleep c w) =
      trace w @ [EvBroadcast (MsgRebootIn 5) (map fst (filter snd (utmps w 0))),
                 EvStdout (MsgLoginsDetected 5), EvSleep loginsRebootDelay,
                 EvReboot c False, EvStdout MsgRebootSent, EvSleep (Hour * 24 * 7)]"
    by (simp add: trace_rebootAndSleep broadcast_lines_filter)
qed

theorem rebootAndSleep_delay_witness:
  "trace (rebootAndSleep Login1_Conn world0) =
     [EvBroadcast (MsgRebootIn 5) [],
      EvReboot Login1_Conn False, EvStdout MsgRebootSent, EvSleep 604800000000000] \<and>
   trace (rebootAndSleep Login1_Conn world_logins) =
     [EvBroadcast (MsgRebootIn 5) [''tty1'', ''pts/1''],
      EvStdout (MsgLoginsDetected 5), EvSleep 300000000000,
      EvReboot Login1_Conn False, EvStdout MsgRebootSent, EvSleep 604800000000000]"
proof -
  have none: "fst (broadcast (MsgRebootIn 5) world0) = 0"
    by (simp add: world0_def)
  have some: "fst (broadcast (MsgRebootIn 5) world_logins) \<noteq> 0"
    by (simp add: world_logins_def world0_def)
  have "trace (rebootAndSleep Login1_Conn world0) =
      trace world0 @ [EvBroadcast (MsgRebootIn 5) [],
        EvReboot Login1_Conn False, EvStdout MsgRebootSent, EvSleep (Hour * 24 * 7)]"
    using rebootAndSleep_delay [of world0 Login1_Conn] none by blast
  moreover have "trace (rebootAndSleep Login1_Conn world_logins) =
      trace world_logins @
        [EvBroadcast (MsgRebootIn 5) (map fst (filter snd (utmps world_logins 0))),
         EvStdout (MsgLoginsDetected 5), EvSleep loginsRebootDelay,
         EvReboot Login1_Conn False, EvStdout MsgRebootSent, EvSleep (Hour * 24 * 7)]"
    using rebootAndSleep_delay [of world_logins Login1_Conn] some by blast
  ultimately show ?thesis
    by (simp add: world_logins_def world0_def loginsRebootDelay_def Hour_def Minute_def
        Second_def Nanosecond_def)
qed

lemma slept_rebootAndSleep:
  "slept (rebootAndSleep c w) =
     slept w @ (if 0 \<noteq> fst (broadcast (MsgRebootIn 5) w) then [loginsRebootDelay] else []) @
     [Hour * 24 * 7]"
  by (simp add: slept_def trace_rebootAndSleep)

lemma lockAndReboot_loop_done:
  "\<not> acquire_fails (lock_results w 0) \<Longrightarrow>
   lockAndReboot_loop r lck interval w = Some (rebootAndSleep (lgn r) (snd (Lock_Lock lck w)))"
  by (subst lockAndReboot_loop.simps) (auto simp: acquire_fails_def case_prod_beta)

lemma lockAndReboot_loop_retry:
  "acquire_fails (lock_results w 0) \<Longrightarrow>
   lockAndReboot_loop r lck interval w =
     lockAndReboot_loop r lck (expBackoff interval)
       (time_Sleep (expBackoff interval)
          (Printf (MsgRetryLock (expBackoff interval) (lock_results w 0))
             (snd (Lock_Lock lck w))))"
  by (subst lockAndReboot_loop.simps) (simp add: acquire_fails_def case_prod_beta Let_def)

lemma backoff_steps:
  "expBackoff interval # map (\<lambda>k. (expBackoff ^^ Suc k) (expBackoff interval)) [0..<n] =
   map (\<lambda>k. (expBackoff ^^ Suc k) interval) [0..<Suc n]"
  by (simp only: map_upt_Suc) (simp add: funpow_swap1)

lemma lockAndReboot_loop_first_success:
  "(\<forall>k<n. acquire_fails (lock_results w k)) \<Longrightarrow> \<not> acquire_fails (lock_results w n) \<Longrightarrow>
   \<exists>w1. lockAndReboot_loop r lck interval w = Some (rebootAndSleep (lgn r) w1) \<and>
        acquires w1 = acquires w + Suc n \<and>
        slept w1 = slept w @ map (\<lambda>k. (expBackoff ^^ Suc k) interval) [0..<n] \<and>
        reboots w1 = reboots w \<and> releases w1 = releases w \<and> utmps w1 = utmps w"
proof (induction n arbitrary: w interval)
  case 0
  then show ?case
    by (intro exI [of _ "snd (Lock_Lock lck w)"]) (simp add: lockAndReboot_loop_done)
next
  case (Suc n)
  let ?i = "expBackoff interval"
  let ?w = "time_Sleep ?i (Printf (MsgRetryLock ?i (lock_results w 0)) (snd (Lock_Lock lck w)))"
  from Suc.prems have first: "acquire_fails (lock_results w 0)"
    by simp
  from Suc.prems have "\<forall>k<n. acquire_fails (lock_results ?w k)"
    and "\<not> acquire_fails (lock_results ?w n)"
    by simp_all
  from Suc.IH [OF this, of ?i] obtain w1 where
    w1: "lockAndReboot_loop r lck ?i ?w = Some (rebootAndSleep (lgn r) w1)"
      "acquires w1 = acquires ?w + Suc n"
      "slept w1 = slept ?w @ map (\<lambda>k. (expBackoff ^^ Suc k) ?i) [0..<n]"
      "reboots w1 = reboots ?w" "releases w1 = releases ?w" "utmps w1 = utmps ?w"
    by blast
  have "slept w1 = slept w @ map (\<lambda>k. (expBackoff ^^ Suc k) interval) [0..<Suc n]"
    using w1(3) backoff_steps [of interval n] by simp
  with w1 first show ?case
    by (intro exI [of _ w1]) (simp add: lockAndReboot_loop_retry)
qed

lemma lockAndReboot_loop_returns:
  "lockAndReboot_loop r lck interval w = Some w' \<Longrightarrow> \<exists>n. \<not> acquire_fails (lock_results w n)"
proof (induction rule: lockAndReboot_loop.raw_induct [rotated 1, consumes 1])
  case (1 loop r lck interval w w')
  show ?case
  proof (cases "acquire_fails (lock_results w 0)")
    case False
    then show ?thesis by blast
  next
    case True
    let ?w = "time_Sleep (expBackoff interval)
        (Printf (MsgRetryLock (expBackoff interval) (lock_results w 0)) (snd (Lock_Lock lck w)))"
    from True 1(2) have "loop r lck (expBackoff interval) ?w = Some w'"
      by (simp add: acquire_fails_def case_prod_beta Let_def)
    moreover have "lock_results ?w = pop (lock_results w)"
      by simp
    ultimately obtain w1 where "lock_results w1 = pop (lock_results w)"
      and "loop r lck (expBackoff interval) w1 = Some w'"
      by blast
    with 1(1) [of r lck "expBackoff interval" w1 w'] show ?thesis
      by auto
  qed
qed

text \<open>
  C2: in the locking loop an acquire that succeeds or gives \<open>ErrExist\<close> is followed by
  \<open>rebootAndSleep\<close>, the notify and reboot phase; any other error is followed by the
  backoff, the sleep of the new interval and the loop again. So when the first \<open>n\<close>
  acquires fail and the next does not, for any \<open>n\<close>, the executor has called acquire
  \<open>n + 1\<close> times and slept \<open>n\<close> backoff intervals when it enters \<open>rebootAndSleep\<close>; and
  when every acquire fails it never returns.
\<close>

theorem lockAndReboot_retries:
  "(lock_results w 0 = None \<or> lock_results w 0 = Some ErrExist \<longrightarrow>
      lockAndReboot_loop r lck interval w =
        Some (rebootAndSleep (lgn r) (snd (Lock_Lock lck w)))) \<and>
   (\<forall>e. lock_results w 0 = Some e \<and> e \<noteq> ErrExist \<longrightarrow>
      lockAndReboot_loop r lck interval w =
        lockAndReboot_loop r lck (expBackoff interval)
          (time_Sleep (expBackoff interval)
             (Printf (MsgRetryLock (expBackoff interval) (Some e)) (snd (Lock_Lock lck w))))) \<and>
   ((\<forall>k<n. acquire_fails (lock_results w k)) \<and> \<not> acquire_fails (lock_results w n) \<longrightarrow>
      (\<exists>w1. lockAndReboot r lck w = Some (rebootAndSleep (lgn r) w1) \<and>
            acquires w1 = acquires w + Suc n \<and> reboots w1 = reboots w \<and>
            slept w1 = slept w @ map (\<lambda>k. (expBackoff ^^ Suc k) initialInterval) [0..<n])) \<and>
   ((\<forall>k. acquire_fails (lock_results w k)) \<longrightarrow> lockAndReboot r lck w = None)"
proof (intro conjI impI allI)
  assume "lock_results w 0 = None \<or> lock_results w 0 = Some ErrExist"
  then have "\<not> acquire_fails (lock_results w 0)"
    by (auto simp: acquire_fails_def)
  then show "lockAndReboot_loop r lck interval w =
      Some (rebootAndSleep (lgn r) (snd (Lock_Lock lck w)))"
    by (rule lockAndReboot_loop_done)
next
  fix e
  assume e: "lock_results w 0 = Some e \<and> e \<noteq> ErrExist"
  then have "acquire_fails (lock_results w 0)"
    by (simp add: acquire_fails_def)
  from lockAndReboot_loop_retry [OF this, of r lck interval] e
  show "lockAndReboot_loop r lck interval w =
      lockAndReboot_loop r lck (expBackoff interval)
        (time_Sleep (expBackoff interval)
           (Printf (MsgRetryLock (expBackoff interval) (Some e)) (snd (Lock_Lock lck w))))"
    by simp
next
  assume "(\<forall>k<n. acquire_fails (lock_results w k)) \<and> \<not> acquire_fails (lock_results w n)"
  then have "\<forall>k<n. acquire_fails (lock_results w k)" and "\<not> acquire_fails (lock_results w n)"
    by simp_all
  from lockAndReboot_loop_first_success [OF this, of r lck initialInterval]
  show "\<exists>w1. lockAndReboot r lck w = Some (rebootAndSleep (lgn r) w1) \<and>
      acquires w1 = acquires w + Suc n \<and> reboots w1 = reboots w \<and>
      slept w1 = slept w @ map (\<lambda>k. (expBackoff ^^ Suc k) initialInterval) [0..<n]"
    unfolding lockAndReboot_def by blast
next
  assume never: "\<forall>k. acquire_fails (lock_results w k)"
  show "lockAndReboot r lck w = None"
  proof (cases "lockAndReboot r lck w")
    case None
    then show ?thesis .
  next
    case (Some w')
    then have "\<exists>n. \<not> acquire_fails (lock_results w n)"
      unfolding lockAndReboot_def by (rule lockAndReboot_loop_returns)
    with never show ?thesis by blast
  qed
qed

theorem lockAndReboot_retries_witness:
  "acquires (the (lockAndReboot \<lparr>strategy = ''etcd-lock'', lgn = Login1_Conn\<rparr>
      (Lock_New ''m'') world_fail_twice)) = 3 \<and>
   reboots (the (lockAndReboot \<lparr>strategy = ''etcd-lock'', lgn = Login1_Conn\<rparr>
      (Lock_New ''m'') world_fail_twice)) = 1 \<and>
   take 2 (slept (the (lockAndReboot \<lparr>strategy = ''etcd-lock'', lgn = Login1_Conn\<rparr>
      (Lock_New ''m'') world_fail_twice))) = [10000000000, 20000000000] \<and>
   lockAndReboot \<lparr>strategy = ''etcd-lock'', lgn = Login1_Conn\<rparr>
      (Lock_New ''m'') world_fail_always = None \<and>
   lockAndReboot_loop \<lparr>strategy = ''etcd-lock'', lgn = Login1_Conn\<rparr>
      (Lock_New ''m'') initialInterval world0 =
     Some (rebootAndSleep Login1_Conn (snd (Lock_Lock (Lock_New ''m'') world0))) \<and>
   lockAndReboot_loop \<lparr>strategy = ''etcd-lock'', lgn = Login1_Conn\<rparr>
      (Lock_New ''m'') initialInterval world_fail_twice =
     lockAndReboot_loop \<lparr>strategy = ''etcd-lock'', lgn = Login1_Conn\<rparr>
       (Lock_New ''m'') 10000000000
       (time_Sleep 10000000000
          (Printf (MsgRetryLock 10000000000 (Some (ErrExternal ''timeout'')))
             (snd (Lock_Lock (Lock_New ''m'') world_fail_twice))))"
proof -
  let ?r = "\<lparr>strategy = ''etcd-lock'', lgn = Login1_Conn\<rparr>"
  let ?lck = "Lock_New ''m''"
  have twice: "(\<forall>k<2. acquire_fails (lock_results world_fail_twice k)) \<and>
      \<not> acquire_fails (lock_results world_fail_twice 2)"
    by (simp add: world_fail_twice_def world0_def acquire_fails_def)
  have always: "\<forall>k. acquire_fails (lock_results world_fail_always k)"
    by (simp add: world_fail_always_def world0_def acquire_fails_def)
  have start: "acquires world_fail_twice = 0" "reboots world_fail_twice = 0"
    "slept world_fail_twice = []"
    by (simp_all add: world_fail_twice_def world0_def acquires_def reboots_def slept_def)
  have first: "expBackoff initialInterval = 10000000000"
    by (simp add: expBackoff_def initialInterval_def maxInterval_def Minute_def Second_def
        Nanosecond_def word_sless_alt)
  have second: "expBackoff 10000000000 = 20000000000"
    by (simp add: expBackoff_def maxInterval_def Minute_def Second_def Nanosecond_def
        word_sless_alt)
  have steps: "map (\<lambda>k. (expBackoff ^^ Suc k) initialInterval) [0..<2] =
      [10000000000, 20000000000]"
    by (simp add: numeral_2_eq_2 first second)
  from lockAndReboot_retries [where w = world_fail_twice and n = 2 and r = ?r and lck = ?lck]
    twice
  obtain w1 where w1: "lockAndReboot ?r ?lck world_fail_twice = Some (rebootAndSleep (lgn ?r) w1)"
    "acquires w1 = acquires world_fail_twice + Suc 2" "reboots w1 = reboots world_fail_twice"
    "slept w1 = slept world_fail_twice @
       map (\<lambda>k. (expBackoff ^^ Suc k) initialInterval) [0..<2]"
    by blast
  from lockAndReboot_retries [where w = world_fail_always and r = ?r and lck = ?lck] always
  have never: "lockAndReboot ?r ?lck world_fail_always = None"
    by blast
  have "lock_results world0 0 = None \<or> lock_results world0 0 = Some ErrExist"
    by (simp add: world0_def)
  with lockAndReboot_retries [where w = world0 and r = ?r and lck = ?lck
      and interval = initialInterval]
  have at_once: "lockAndReboot_loop ?r ?lck initialInterval world0 =
      Some (rebootAndSleep Login1_Conn (snd (Lock_Lock ?lck world0)))"
    by simp
  have "lock_results world_fail_twice 0 = Some (ErrExternal ''timeout'') \<and>
      ErrExternal ''timeout'' \<noteq> ErrExist"
    by (simp add: world_fail_twice_def world0_def)
  with lockAndReboot_retries [where w = world_fail_twice and r = ?r and lck = ?lck
      and interval = initialInterval]
  have "lockAndReboot_loop ?r ?lck initialInterval world_fail_twice =
      lockAndReboot_loop ?r ?lck (expBackoff initialInterval)
        (time_Sleep (expBackoff initialInterval)
           (Printf (MsgRetryLock (expBackoff initialInterval) (Some (ErrExternal ''timeout'')))
              (snd (Lock_Lock ?lck world_fail_twice))))"
    by blast
  then have again: "lockAndReboot_loop ?r ?lck initialInterval world_fail_twice =
      lockAndReboot_loop ?r ?lck 10000000000
        (time_Sleep 10000000000
           (Printf (MsgRetryLock 10000000000 (Some (ErrExternal ''timeout'')))
              (snd (Lock_Lock ?lck world_fail_twice))))"
    by (simp only: first)
  from w1 start steps never have "acquires (the (lockAndReboot ?r ?lck world_fail_twice)) = 3 \<and>
      reboots (the (lockAndReboot ?r ?lck world_fail_twice)) = 1 \<and>
      take 2 (slept (the (lockAndReboot ?r ?lck world_fail_twice))) =
        [10000000000, 20000000000] \<and>
      lockAndReboot ?r ?lck world_fail_always = None"
    by (simp add: slept_rebootAndSleep)
  with at_once again show ?thesis
    by blast
qed

text \<open>
  C9: when \<open>useLock\<close> returns true, the lock is set up and some acquire succeeds (or
  gives \<open>ErrExist\<close>), \<open>reboot\<close> runs \<open>rebootAndSleep\<close> twice, first as the end of
  \<open>lockAndReboot\<close> and again after it has returned: two reboot requests are sent, then
  the failure message is printed and the status is 1.
\<close>

theorem reboot_twice:
  assumes "fst (useLock r w) = (True, None)"
    and "setupLock (snd (useLock r w)) = (Inr lck, w1)"
    and "unlockIfHeld lck w1 = (None, w2)"
    and "\<exists>n. \<not> acquire_fails (lock_results w2 n)"
  shows "\<exists>w3. reboot r w =
           Some (1, Printf MsgNeverFinished
                      (rebootAndSleep (lgn r) (rebootAndSleep (lgn r) w3))) \<and>
         reboots w3 = reboots w \<and>
         reboots (snd (the (reboot r w))) = reboots w + 2 \<and>
         last (trace (snd (the (reboot r w)))) = EvStdout MsgNeverFinished"
proof -
  define n where "n = (LEAST n. \<not> acquire_fails (lock_results w2 n))"
  from assms(4) have "\<not> acquire_fails (lock_results w2 n)"
    unfolding n_def by (rule LeastI_ex)
  moreover have "\<forall>k<n. acquire_fails (lock_results w2 k)"
    unfolding n_def using not_less_Least by blast
  ultimately obtain w3 where
    loop: "lockAndReboot_loop r lck initialInterval w2 = Some (rebootAndSleep (lgn r) w3)"
    and "reboots w3 = reboots w2"
    using lockAndReboot_loop_first_success [of n w2 r lck initialInterval] by blast
  moreover have "reboots w2 = reboots w"
  proof -
    have "w1 = snd (setupLock (snd (useLock r w)))" and "w2 = snd (unlockIfHeld lck w1)"
      using assms(2,3) by simp_all
    then show ?thesis by simp
  qed
  ultimately have same: "reboots w3 = reboots w"
    by simp
  have run: "reboot r w =
      Some (1, Printf MsgNeverFinished (rebootAndSleep (lgn r) (rebootAndSleep (lgn r) w3)))"
    using assms(1,2,3) loop
    by (simp add: reboot_def case_prod_beta lockAndReboot_def reboot_finish_def)
  with same show ?thesis
    by (intro exI [of _ w3]) simp
qed

theorem reboot_twice_witness:
  "map_option fst (reboot \<lparr>strategy = ''etcd-lock'', lgn = Login1_Conn\<rparr> world_fail_twice) = Some 1 \<and>
   reboots (snd (the (reboot \<lparr>strategy = ''etcd-lock'', lgn = Login1_Conn\<rparr> world_fail_twice))) = 2 \<and>
   last (trace (snd (the (reboot \<lparr>strategy = ''etcd-lock'', lgn = Login1_Conn\<rparr> world_fail_twice)))) =
     EvStdout MsgNeverFinished"
proof -
  let ?r = "\<lparr>strategy = ''etcd-lock'', lgn = Login1_Conn\<rparr>"
  let ?lck = "Lock_New ''2b1a7e1d3c4f4a5b8c6d7e8f9a0b1c2d''"
  let ?w1 = "snd (setupLock (snd (useLock ?r world_fail_twice)))"
  let ?w2 = "snd (unlockIfHeld ?lck ?w1)"
  have gate: "fst (useLock ?r world_fail_twice) = (True, None)"
    by (simp add: useLock_def StrategyEtcdLock_def StrategyBestEffort_def)
  have made: "setupLock (snd (useLock ?r world_fail_twice)) = (Inr ?lck, ?w1)"
    by (simp add: useLock_def StrategyEtcdLock_def StrategyBestEffort_def setupLock_def
        case_prod_beta Let_def world_fail_twice_def world0_def)
  have unlock: "unlockIfHeld ?lck ?w1 = (None, ?w2)"
    by (simp add: useLock_def StrategyEtcdLock_def StrategyBestEffort_def setupLock_def
        unlockIfHeld_def case_prod_beta Let_def world_fail_twice_def world0_def)
  have "lock_results ?w2 2 = None"
    by (simp add: useLock_def StrategyEtcdLock_def StrategyBestEffort_def setupLock_def
        unlockIfHeld_def case_prod_beta Let_def world_fail_twice_def world0_def)
  then have acquired: "\<exists>n. \<not> acquire_fails (lock_results ?w2 n)"
    by (intro exI [of _ 2]) (simp add: acquire_fails_def)
  have "reboots world_fail_twice = 0"
    by (simp add: reboots_def world_fail_twice_def world0_def)
  with reboot_twice [OF gate made unlock acquired] show ?thesis
    by auto
qed

subsection \<open>The reaper\<close>

lemma setupLock_cases:
  "setupLock w =
     (if clients w 0 \<noteq> None then (Inl (ErrEtcdClient (the (clients w 0))), snd (getClient w))
      else if machine_ids w 0 = '''' then (Inl ErrMachineID, snd (MachineID (snd (getClient w))))
      else (Inr (Lock_New (machine_ids w 0)),
            emit (EvLockNew (Lock_New (machine_ids w 0))) (snd (MachineID (snd (getClient w))))))"
  by (auto simp: setupLock_def case_prod_beta Let_def split: option.splits)

lemma setupLock_unlock_results [simp]:
  "unlock_results (snd (setupLock w)) = unlock_results w"
  by (simp add: setupLock_cases)

lemma handles_setupLock:
  "handles (snd (setupLock w)) = handles w + (if isl (fst (setupLock w)) then 0 else 1)"
  by (simp add: setupLock_cases count_emit)

lemma release_cases:
  "unlockHeldLocks_release w =
     (case fst (setupLock w) of
        Inl e \<Rightarrow> (Some (ReasonSetupLock e), snd (setupLock w))
      | Inr lck \<Rightarrow>
          (if unlock_results w 0 = Some ErrNotExist
           then (None, snd (Lock_Unlock lck (snd (setupLock w))))
           else if unlock_results w 0 = None
           then (None, Printf MsgUnlockedExisting (snd (Lock_Unlock lck (snd (setupLock w)))))
           else (map_option ReasonError (unlock_results w 0),
                 snd (Lock_Unlock lck (snd (setupLock w))))))"
  by (auto simp: unlockHeldLocks_release_def unlockIfHeld_def case_prod_beta Let_def
      split: sum.splits prod.splits option.splits)

lemma releases_release:
  "releases (snd (unlockHeldLocks_release w)) =
     releases w + (if clients w 0 = None \<and> machine_ids w 0 \<noteq> '''' then 1 else 0)"
  by (simp add: release_cases setupLock_cases count_emit)

lemma handles_release:
  "handles (snd (unlockHeldLocks_release w)) =
     handles w + (if clients w 0 = None \<and> machine_ids w 0 \<noteq> '''' then 1 else 0)"
  by (simp add: release_cases setupLock_cases count_emit)

lemma attempt_cases:
  "unlockHeldLocks_attempt w =
     (if snd (snd (etcdActive (probes w 0))) \<noteq> None
      then (Some (ReasonStatus etcdServices), snd (etcdActive_call w))
      else if \<not> fst (etcdActive (probes w 0)) then
        (if clients w 0 \<noteq> None
         then (Some (ReasonInactive etcdServices), snd (getClient (snd (etcdActive_call w))))
         else unlockHeldLocks_release (snd (getClient (snd (etcdActive_call w)))))
      else unlockHeldLocks_release (snd (etcdActive_call w)))"
  by (simp add: unlockHeldLocks_attempt_def case_prod_beta Let_def)

lemma unlockHeldLocks_loop_stop:
  "selects w 0 \<Longrightarrow> unlockHeldLocks_loop interval w = Some (snd (select_stop interval w))"
  by (subst unlockHeldLocks_loop.simps) (simp add: case_prod_beta)

lemma unlockHeldLocks_loop_return:
  "\<not> selects w 0 \<Longrightarrow> fst (unlockHeldLocks_attempt (snd (select_stop interval w))) = None \<Longrightarrow>
   unlockHeldLocks_loop interval w =
     Some (snd (unlockHeldLocks_attempt (snd (select_stop interval w))))"
  by (subst unlockHeldLocks_loop.simps) (simp add: case_prod_beta)

lemma unlockHeldLocks_loop_defer:
  "\<not> selects w 0 \<Longrightarrow>
   fst (unlockHeldLocks_attempt (snd (select_stop interval w))) = Some reason \<Longrightarrow>
   unlockHeldLocks_loop interval w =
     unlockHeldLocks_loop (expBackoff interval)
       (Printf (MsgUnlockFailed reason (expBackoff interval))
          (snd (unlockHeldLocks_attempt (snd (select_stop interval w)))))"
  by (subst unlockHeldLocks_loop.simps) (simp add: case_prod_beta Let_def)

lemma releases_attempt:
  "releases (snd (unlockHeldLocks_attempt w)) =
     releases w + (if release_attempted w then 1 else 0)"
  by (auto simp: attempt_cases releases_release release_attempted_def)

lemma handles_attempt:
  "handles (snd (unlockHeldLocks_attempt w)) =
     handles w + (if release_attempted w then 1 else 0)"
  by (auto simp: attempt_cases handles_release release_attempted_def)

lemma unlock_results_release:
  "unlock_results (snd (unlockHeldLocks_release w)) =
     (if clients w 0 = None \<and> machine_ids w 0 \<noteq> [] then pop (unlock_results w)
      else unlock_results w)"
  by (simp add: release_cases setupLock_cases)

lemma unlock_results_attempt:
  "unlock_results (snd (unlockHeldLocks_attempt w)) =
     (if release_attempted w then pop (unlock_results w) else unlock_results w)"
  by (auto simp: attempt_cases unlock_results_release release_attempted_def)

lemma fst_attempt_released:
  "release_attempted w \<Longrightarrow>
   fst (unlockHeldLocks_attempt w) =
     (if unlock_results w 0 = Some ErrNotExist \<or> unlock_results w 0 = None then None
      else map_option ReasonError (unlock_results w 0))"
  by (auto simp: attempt_cases release_cases setupLock_cases release_attempted_def)

lemma release_attempted_select [simp]:
  "release_attempted (snd (select_stop interval w)) = release_attempted w"
  by (simp add: release_attempted_def)

lemma loop_iteration:
  "unlockHeldLocks_loop interval w =
     (case unlockHeldLocks_iteration interval w of
        Returned w' \<Rightarrow> Some w'
      | Deferred interval' w' \<Rightarrow> unlockHeldLocks_loop interval' w')"
  by (subst unlockHeldLocks_loop.simps)
    (simp add: unlockHeldLocks_iteration_def case_prod_beta Let_def split: option.splits)

lemma iteration_stop:
  "selects w 0 \<Longrightarrow> unlockHeldLocks_iteration interval w = Returned (snd (select_stop interval w))"
  by (simp add: unlockHeldLocks_iteration_def case_prod_beta)

lemma iteration_return:
  "\<not> selects w 0 \<Longrightarrow> fst (unlockHeldLocks_attempt (snd (select_stop interval w))) = None \<Longrightarrow>
   unlockHeldLocks_iteration interval w =
     Returned (snd (unlockHeldLocks_attempt (snd (select_stop interval w))))"
  by (simp add: unlockHeldLocks_iteration_def case_prod_beta)

lemma iteration_defer:
  "\<not> selects w 0 \<Longrightarrow>
   fst (unlockHeldLocks_attempt (snd (select_stop interval w))) = Some reason \<Longrightarrow>
   unlockHeldLocks_iteration interval w =
     Deferred (expBackoff interval)
       (Printf (MsgUnlockFailed reason (expBackoff interval))
          (snd (unlockHeldLocks_attempt (snd (select_stop interval w)))))"
  by (simp add: unlockHeldLocks_iteration_def case_prod_beta Let_def)

lemma iterations_returned:
  "unlockHeldLocks_iterations n interval w = Returned w' \<Longrightarrow>
   unlockHeldLocks_loop interval w = Some w'"
proof (induction n arbitrary: interval w)
  case 0
  then show ?case by simp
next
  case (Suc n)
  then show ?case
    by (subst loop_iteration) (auto split: iteration.splits)
qed

lemma iterations_deferred:
  "unlockHeldLocks_iterations n interval w = Deferred interval' w' \<Longrightarrow>
   unlockHeldLocks_loop interval w = unlockHeldLocks_loop interval' w'"
proof (induction n arbitrary: interval w)
  case 0
  then show ?case by simp
next
  case (Suc n)
  then show ?case
    by (subst loop_iteration) (auto split: iteration.splits)
qed

lemma loop_returns_iterations:
  "unlockHeldLocks_loop interval w = Some w' \<Longrightarrow>
   \<exists>n. unlockHeldLocks_iterations n interval w = Returned w'"
proof (induction rule: unlockHeldLocks_loop.raw_induct [rotated 1, consumes 1])
  case (1 loop interval w w')
  show ?case
  proof (cases "unlockHeldLocks_iteration interval w")
    case (Returned w1)
    with 1(2) have "w1 = w'"
      by (auto simp: unlockHeldLocks_iteration_def case_prod_beta Let_def
          split: if_splits option.splits)
    with Returned have "unlockHeldLocks_iterations (Suc 0) interval w = Returned w'"
      by simp
    then show ?thesis by blast
  next
    case (Deferred interval' w1)
    with 1(2) have "loop interval' w1 = Some w'"
      by (auto simp: unlockHeldLocks_iteration_def case_prod_beta Let_def
          split: if_splits option.splits)
    then obtain n where "unlockHeldLocks_iterations n interval' w1 = Returned w'"
      using 1(1) by blast
    with Deferred have "unlockHeldLocks_iterations (Suc n) interval w = Returned w'"
      by simp
    then show ?thesis by blast
  qed
qed

lemma setupLock_fields:
  "probes (snd (setupLock w)) = probes w"
  "selects (snd (setupLock w)) = selects w"
  "clients (snd (setupLock w)) = pop (clients w)"
  by (simp_all add: setupLock_cases)

lemma attempt_released:
  assumes "release_attempted w"
  shows "probes (snd (unlockHeldLocks_attempt w)) = pop (probes w)"
    and "selects (snd (unlockHeldLocks_attempt w)) = selects w"
    and "machine_ids (snd (unlockHeldLocks_attempt w)) = pop (machine_ids w)"
    and "clients (snd (unlockHeldLocks_attempt w)) =
      (if fst (etcdActive (probes w 0)) then pop (clients w) else pop (pop (clients w)))"
    and "trace (snd (unlockHeldLocks_attempt w)) =
      trace w @
      EvEtcdActive (etcdActive (probes w 0)) #
      replicate (if fst (etcdActive (probes w 0)) then 1 else 2) (EvGetClient None) @
      [EvMachineID (machine_ids w 0), EvLockNew (Lock_New (machine_ids w 0)),
       EvUnlock (Lock_New (machine_ids w 0)) (unlock_results w 0)] @
      (if unlock_results w 0 = None then [EvStdout MsgUnlockedExisting] else [])"
  using assms
  by (auto simp: attempt_cases release_cases setupLock_cases release_attempted_def
      numeral_2_eq_2)

lemma run_status:
  "(\<forall>k<n. \<not> selects w k \<and> snd (snd (etcdActive (probes w k))) \<noteq> None) \<Longrightarrow> selects w n \<Longrightarrow>
   map_option trace (unlockHeldLocks_loop interval w) =
     Some (trace w @
           concat (map (\<lambda>k. [EvSelect ((expBackoff ^^ k) interval) False,
                             EvEtcdActive (etcdActive (probes w k)),
                             EvStdout (MsgUnlockFailed (ReasonStatus etcdServices)
                                         ((expBackoff ^^ Suc k) interval))]) [0..<n]) @
           [EvSelect ((expBackoff ^^ n) interval) True])"
proof (induction n arbitrary: w interval)
  case 0
  then show ?case
    by (simp add: unlockHeldLocks_loop_stop)
next
  case (Suc n)
  let ?w0 = "snd (select_stop interval w)"
  let ?i = "expBackoff interval"
  let ?w2 = "Printf (MsgUnlockFailed (ReasonStatus etcdServices) ?i) (snd (etcdActive_call ?w0))"
  from Suc.prems have first: "\<not> selects w 0" "snd (snd (etcdActive (probes w 0))) \<noteq> None"
    by auto
  then have "unlockHeldLocks_attempt ?w0 =
      (Some (ReasonStatus etcdServices), snd (etcdActive_call ?w0))"
    by (simp add: attempt_cases)
  with first have step: "unlockHeldLocks_loop interval w = unlockHeldLocks_loop ?i ?w2"
    by (simp add: unlockHeldLocks_loop_defer)
  from Suc.prems
  have "\<forall>k<n. \<not> selects ?w2 k \<and> snd (snd (etcdActive (probes ?w2 k))) \<noteq> None"
    and "selects ?w2 n"
    by auto
  from Suc.IH [OF this, of ?i] step first show ?case
    by (subst map_upt_Suc) (simp add: funpow_swap1)
qed

lemma run_store:
  "(\<forall>k<n. \<not> selects w k \<and> snd (snd (etcdActive (probes w k))) = None \<and>
          \<not> fst (etcdActive (probes w k)) \<and> clients w k \<noteq> None) \<Longrightarrow> selects w n \<Longrightarrow>
   map_option trace (unlockHeldLocks_loop interval w) =
     Some (trace w @
           concat (map (\<lambda>k. [EvSelect ((expBackoff ^^ k) interval) False,
                             EvEtcdActive (etcdActive (probes w k)),
                             EvGetClient (clients w k),
                             EvStdout (MsgUnlockFailed (ReasonInactive etcdServices)
                                         ((expBackoff ^^ Suc k) interval))]) [0..<n]) @
           [EvSelect ((expBackoff ^^ n) interval) True])"
proof (induction n arbitrary: w interval)
  case 0
  then show ?case
    by (simp add: unlockHeldLocks_loop_stop)
next
  case (Suc n)
  let ?w0 = "snd (select_stop interval w)"
  let ?i = "expBackoff interval"
  let ?w2 = "Printf (MsgUnlockFailed (ReasonInactive etcdServices) ?i)
      (snd (getClient (snd (etcdActive_call ?w0))))"
  from Suc.prems have first: "\<not> selects w 0" "snd (snd (etcdActive (probes w 0))) = None"
    "\<not> fst (etcdActive (probes w 0))" "clients w 0 \<noteq> None"
    by auto
  then have "unlockHeldLocks_attempt ?w0 =
      (Some (ReasonInactive etcdServices), snd (getClient (snd (etcdActive_call ?w0))))"
    by (simp add: attempt_cases)
  with first have step: "unlockHeldLocks_loop interval w = unlockHeldLocks_loop ?i ?w2"
    by (simp add: unlockHeldLocks_loop_defer)
  from Suc.prems
  have "\<forall>k<n. \<not> selects ?w2 k \<and> snd (snd (etcdActive (probes ?w2 k))) = None \<and>
      \<not> fst (etcdActive (probes ?w2 k)) \<and> clients ?w2 k \<noteq> None"
    and "selects ?w2 n"
    by auto
  from Suc.IH [OF this, of ?i] step first show ?case
    by (subst map_upt_Suc) (simp add: funpow_swap1)
qed

lemma run_release:
  assumes "\<forall>j. clients w j = None"
    and "\<forall>k\<le>n. \<not> selects w k \<and> snd (snd (etcdActive (probes w k))) = None \<and>
      machine_ids w k \<noteq> []"
    and "\<forall>k<n. release_fails (unlock_results w k)"
    and "\<not> release_fails (unlock_results w n)"
  shows "map_option trace (unlockHeldLocks_loop interval w) =
     Some (trace w @
           concat (map (\<lambda>k. release_pass ((expBackoff ^^ k) interval) (probes w k)
                               (machine_ids w k) (unlock_results w k) @
                             [EvStdout (MsgUnlockFailed (ReasonError (the (unlock_results w k)))
                                          ((expBackoff ^^ Suc k) interval))]) [0..<n]) @
           release_pass ((expBackoff ^^ n) interval) (probes w n) (machine_ids w n)
             (unlock_results w n) @
           (if unlock_results w n = None then [EvStdout MsgUnlockedExisting] else [])) \<and>
     map_option releases (unlockHeldLocks_loop interval w) = Some (releases w + Suc n)"
  using assms
proof (induction n arbitrary: w interval)
  case 0
  let ?w0 = "snd (select_stop interval w)"
  from "0.prems" have att: "release_attempted ?w0" and timer: "\<not> selects w 0"
    by (simp_all add: release_attempted_def)
  from "0.prems" have "unlock_results w 0 = Some ErrNotExist \<or> unlock_results w 0 = None"
    by (auto simp: release_fails_def)
  with att have "fst (unlockHeldLocks_attempt ?w0) = None"
    by (simp add: fst_attempt_released)
  with timer have "unlockHeldLocks_loop interval w = Some (snd (unlockHeldLocks_attempt ?w0))"
    by (rule unlockHeldLocks_loop_return)
  with att timer show ?case
    by (simp add: attempt_released release_pass_def releases_attempt)
next
  case (Suc n)
  let ?w0 = "snd (select_stop interval w)"
  let ?i = "expBackoff interval"
  let ?w1 = "snd (unlockHeldLocks_attempt ?w0)"
  let ?w2 = "Printf (MsgUnlockFailed (ReasonError (the (unlock_results w 0))) ?i) ?w1"
  from Suc.prems have att: "release_attempted ?w0" and timer: "\<not> selects w 0"
    by (simp_all add: release_attempted_def)
  from Suc.prems have "release_fails (unlock_results w 0)"
    by simp
  then obtain e where e: "unlock_results w 0 = Some e" "e \<noteq> ErrNotExist"
    by (auto simp: release_fails_def)
  with att have "fst (unlockHeldLocks_attempt ?w0) = Some (ReasonError e)"
    by (simp add: fst_attempt_released)
  with timer e have step: "unlockHeldLocks_loop interval w = unlockHeldLocks_loop ?i ?w2"
    by (simp add: unlockHeldLocks_loop_defer)
  have "\<forall>j. clients ?w2 j = None"
    using Suc.prems(1) att by (simp add: attempt_released)
  moreover have "\<forall>k\<le>n. \<not> selects ?w2 k \<and> snd (snd (etcdActive (probes ?w2 k))) = None \<and>
      machine_ids ?w2 k \<noteq> []"
    using Suc.prems(2) att by (simp add: attempt_released)
  moreover have "\<forall>k<n. release_fails (unlock_results ?w2 k)"
    and "\<not> release_fails (unlock_results ?w2 n)"
    using Suc.prems(3,4) att by (simp_all add: unlock_results_attempt)
  ultimately have run: "map_option trace (unlockHeldLocks_loop ?i ?w2) =
     Some (trace ?w2 @
           concat (map (\<lambda>k. release_pass ((expBackoff ^^ k) ?i) (probes ?w2 k)
                               (machine_ids ?w2 k) (unlock_results ?w2 k) @
                             [EvStdout (MsgUnlockFailed (ReasonError (the (unlock_results ?w2 k)))
                                          ((expBackoff ^^ Suc k) ?i))]) [0..<n]) @
           release_pass ((expBackoff ^^ n) ?i) (probes ?w2 n) (machine_ids ?w2 n)
             (unlock_results ?w2 n) @
           (if unlock_results ?w2 n = None then [EvStdout MsgUnlockedExisting] else []))"
    and count: "map_option releases (unlockHeldLocks_loop ?i ?w2) = Some (releases ?w2 + Suc n)"
    using Suc.IH [of ?w2 ?i] by blast+
  from run step att e timer have "map_option trace (unlockHeldLocks_loop interval w) =
     Some (trace w @
           concat (map (\<lambda>k. release_pass ((expBackoff ^^ k) interval) (probes w k)
                               (machine_ids w k) (unlock_results w k) @
                             [EvStdout (MsgUnlockFailed (ReasonError (the (unlock_results w k)))
                                          ((expBackoff ^^ Suc k) interval))]) [0..<Suc n]) @
           release_pass ((expBackoff ^^ Suc n) interval) (probes w (Suc n)) (machine_ids w (Suc n))
             (unlock_results w (Suc n)) @
           (if unlock_results w (Suc n) = None then [EvStdout MsgUnlockedExisting] else []))"
    by (subst map_upt_Suc)
      (simp add: funpow_swap1 attempt_released unlock_results_attempt release_pass_def)
  moreover from count step att have
    "map_option releases (unlockHeldLocks_loop interval w) = Some (releases w + Suc (Suc n))"
    by (simp add: releases_attempt)
  ultimately show ?case
    by blast
qed

text \<open>
  C1, as stated: in an iteration where the probe reports the service active, the reaper
  defers without constructing a lock handle or attempting release. On the code such an
  iteration skips only the \<^verbatim>\<open>getClient()\<close> check of the inactive case and goes on to
  \<^verbatim>\<open>setupLock()\<close> and \<^verbatim>\<open>unlockIfHeld(lck)\<close>: with etcd2 active, the handle is made,
  release is called, and the reaper returns.
\<close>

theorem unlockHeldLocks_active_counterexample:
  "etcdActive (probes world_active 0) = (True, ''etcd2.service'', None) \<and>
   fst (unlockHeldLocks_attempt world_active) = None \<and>
   trace (snd (unlockHeldLocks_attempt world_active)) =
     [EvEtcdActive (True, ''etcd2.service'', None),
      EvGetClient None,
      EvMachineID ''2b1a7e1d3c4f4a5b8c6d7e8f9a0b1c2d'',
      EvLockNew (Lock_New ''2b1a7e1d3c4f4a5b8c6d7e8f9a0b1c2d''),
      EvUnlock (Lock_New ''2b1a7e1d3c4f4a5b8c6d7e8f9a0b1c2d'') (Some ErrNotExist)] \<and>
   handles (snd (unlockHeldLocks_attempt world_active)) = 1 \<and>
   releases (snd (unlockHeldLocks_attempt world_active)) = 1"
proof -
  have probe: "etcdActive (probes world_active 0) = (True, ''etcd2.service'', None)"
    by (simp add: world_active_def systemd_etcd2_def etcdActive_def etcdServices_def)
  have run: "fst (unlockHeldLocks_attempt world_active) = None \<and>
      trace (snd (unlockHeldLocks_attempt world_active)) =
        [EvEtcdActive (True, ''etcd2.service'', None),
         EvGetClient None,
         EvMachineID ''2b1a7e1d3c4f4a5b8c6d7e8f9a0b1c2d'',
         EvLockNew (Lock_New ''2b1a7e1d3c4f4a5b8c6d7e8f9a0b1c2d''),
         EvUnlock (Lock_New ''2b1a7e1d3c4f4a5b8c6d7e8f9a0b1c2d'') (Some ErrNotExist)]"
    by (simp add: attempt_cases probe release_cases setupLock_cases)
      (simp add: world_active_def world0_def)
  then show ?thesis
    using probe by (simp add: handles_def releases_def)
qed

text \<open>
  C1, amended: in an iteration where the probe fails, or reports the service inactive
  while \<^verbatim>\<open>getClient()\<close> fails, the reaper defers: it makes no lock handle and no
  release, prints the reason with the backed-off interval and makes the next pass; a run
  of \<open>n\<close> such passes followed by the stop returns, with exactly those events. In an
  iteration where the probe reports the service active the reaper skips the store check
  and goes on to \<^verbatim>\<open>setupLock()\<close>: when that fails, \<^verbatim>\<open>getClient()\<close> giving an error or
  the machine id being empty, it defers too, with the reason \<open>error setting up lock\<close>
  and no handle and no release; otherwise it makes the handle and attempts the release.
  A handle is made and a release attempted exactly in the worlds of
  \<open>release_attempted\<close>: only when the probe had no error and the store was reachable,
  every \<^verbatim>\<open>getClient()\<close> of the iteration having succeeded. Whatever the reason of a
  deferral, the pass ends in the backoff and the line printed, and the loop returns
  exactly what the passes return.
\<close>

theorem unlockHeldLocks_defers:
  "(snd (snd (etcdActive (probes w 0))) \<noteq> None \<longrightarrow>
      unlockHeldLocks_attempt w = (Some (ReasonStatus etcdServices), snd (etcdActive_call w)) \<and>
      handles (snd (unlockHeldLocks_attempt w)) = handles w \<and>
      releases (snd (unlockHeldLocks_attempt w)) = releases w) \<and>
   (snd (snd (etcdActive (probes w 0))) = None \<and> \<not> fst (etcdActive (probes w 0)) \<and>
    clients w 0 \<noteq> None \<longrightarrow>
      unlockHeldLocks_attempt w =
        (Some (ReasonInactive etcdServices), snd (getClient (snd (etcdActive_call w)))) \<and>
      handles (snd (unlockHeldLocks_attempt w)) = handles w \<and>
      releases (snd (unlockHeldLocks_attempt w)) = releases w) \<and>
   (snd (snd (etcdActive (probes w 0))) = None \<and> fst (etcdActive (probes w 0)) \<longrightarrow>
      unlockHeldLocks_attempt w = unlockHeldLocks_release (snd (etcdActive_call w))) \<and>
   (\<forall>e. snd (snd (etcdActive (probes w 0))) = None \<and> fst (etcdActive (probes w 0)) \<and>
        clients w 0 = Some e \<longrightarrow>
      unlockHeldLocks_attempt w =
        (Some (ReasonSetupLock (ErrEtcdClient e)), snd (getClient (snd (etcdActive_call w)))) \<and>
      handles (snd (unlockHeldLocks_attempt w)) = handles w \<and>
      releases (snd (unlockHeldLocks_attempt w)) = releases w) \<and>
   (snd (snd (etcdActive (probes w 0))) = None \<and> fst (etcdActive (probes w 0)) \<and>
    clients w 0 = None \<and> machine_ids w 0 = [] \<longrightarrow>
      unlockHeldLocks_attempt w =
        (Some (ReasonSetupLock ErrMachineID),
         snd (MachineID (snd (getClient (snd (etcdActive_call w)))))) \<and>
      handles (snd (unlockHeldLocks_attempt w)) = handles w \<and>
      releases (snd (unlockHeldLocks_attempt w)) = releases w) \<and>
   (snd (snd (etcdActive (probes w 0))) = None \<and> fst (etcdActive (probes w 0)) \<and>
    clients w 0 = None \<and> machine_ids w 0 \<noteq> [] \<longrightarrow>
      trace (snd (unlockHeldLocks_attempt w)) =
        trace w @
        [EvEtcdActive (etcdActive (probes w 0)), EvGetClient None,
         EvMachineID (machine_ids w 0), EvLockNew (Lock_New (machine_ids w 0)),
         EvUnlock (Lock_New (machine_ids w 0)) (unlock_results w 0)] @
        (if unlock_results w 0 = None then [EvStdout MsgUnlockedExisting] else [])) \<and>
   releases (snd (unlockHeldLocks_attempt w)) =
     releases w + (if release_attempted w then 1 else 0) \<and>
   handles (snd (unlockHeldLocks_attempt w)) =
     handles w + (if release_attempted w then 1 else 0) \<and>
   (release_attempted w \<longrightarrow>
      snd (snd (etcdActive (probes w 0))) = None \<and> clients w 0 = None) \<and>
   (\<not> selects w 0 \<and>
    fst (unlockHeldLocks_attempt (snd (select_stop interval w))) = Some reason \<longrightarrow>
      unlockHeldLocks_iteration interval w =
        Deferred (expBackoff interval)
          (Printf (MsgUnlockFailed reason (expBackoff interval))
             (snd (unlockHeldLocks_attempt (snd (select_stop interval w))))) \<and>
      unlockHeldLocks_loop interval w =
        unlockHeldLocks_loop (expBackoff interval)
          (Printf (MsgUnlockFailed reason (expBackoff interval))
             (snd (unlockHeldLocks_attempt (snd (select_stop interval w)))))) \<and>
   (unlockHeldLocks_iterations n interval w = Returned w' \<longrightarrow>
      unlockHeldLocks_loop interval w = Some w') \<and>
   (unlockHeldLocks_loop interval w = Some w' \<longrightarrow>
      (\<exists>m. unlockHeldLocks_iterations m interval w = Returned w')) \<and>
   ((\<forall>k<n. \<not> selects w k \<and> snd (snd (etcdActive (probes w k))) \<noteq> None) \<and> selects w n \<longrightarrow>
      map_option trace (unlockHeldLocks_loop interval w) =
        Some (trace w @
              concat (map (\<lambda>k. [EvSelect ((expBackoff ^^ k) interval) False,
                                EvEtcdActive (etcdActive (probes w k)),
                                EvStdout (MsgUnlockFailed (ReasonStatus etcdServices)
                                            ((expBackoff ^^ Suc k) interval))]) [0..<n]) @
              [EvSelect ((expBackoff ^^ n) interval) True])) \<and>
   ((\<forall>k<n. \<not> selects w k \<and> snd (snd (etcdActive (probes w k))) = None \<and>
           \<not> fst (etcdActive (probes w k)) \<and> clients w k \<noteq> None) \<and> selects w n \<longrightarrow>
      map_option trace (unlockHeldLocks_loop interval w) =
        Some (trace w @
              concat (map (\<lambda>k. [EvSelect ((expBackoff ^^ k) interval) False,
                                EvEtcdActive (etcdActive (probes w k)),
                                EvGetClient (clients w k),
                                EvStdout (MsgUnlockFailed (ReasonInactive etcdServices)
                                            ((expBackoff ^^ Suc k) interval))]) [0..<n]) @
              [EvSelect ((expBackoff ^^ n) interval) True]))"
proof (intro conjI impI allI)
  assume "snd (snd (etcdActive (probes w 0))) \<noteq> None"
  then show "unlockHeldLocks_attempt w =
      (Some (ReasonStatus etcdServices), snd (etcdActive_call w))"
    and "handles (snd (unlockHeldLocks_attempt w)) = handles w"
    and "releases (snd (unlockHeldLocks_attempt w)) = releases w"
    by (simp_all add: attempt_cases)
next
  assume "snd (snd (etcdActive (probes w 0))) = None \<and> \<not> fst (etcdActive (probes w 0)) \<and>
    clients w 0 \<noteq> None"
  then show "unlockHeldLocks_attempt w =
      (Some (ReasonInactive etcdServices), snd (getClient (snd (etcdActive_call w))))"
    and "handles (snd (unlockHeldLocks_attempt w)) = handles w"
    and "releases (snd (unlockHeldLocks_attempt w)) = releases w"
    by (simp_all add: attempt_cases)
next
  assume "snd (snd (etcdActive (probes w 0))) = None \<and> fst (etcdActive (probes w 0))"
  then show "unlockHeldLocks_attempt w = unlockHeldLocks_release (snd (etcdActive_call w))"
    by (simp add: attempt_cases)
next
  fix e
  assume "snd (snd (etcdActive (probes w 0))) = None \<and> fst (etcdActive (probes w 0)) \<and>
    clients w 0 = Some e"
  then show "unlockHeldLocks_attempt w =
      (Some (ReasonSetupLock (ErrEtcdClient e)), snd (getClient (snd (etcdActive_call w))))"
    and "handles (snd (unlockHeldLocks_attempt w)) = handles w"
    and "releases (snd (unlockHeldLocks_attempt w)) = releases w"
    by (simp_all add: attempt_cases release_cases setupLock_cases)
next
  assume "snd (snd (etcdActive (probes w 0))) = None \<and> fst (etcdActive (probes w 0)) \<and>
    clients w 0 = None \<and> machine_ids w 0 = []"
  then show "unlockHeldLocks_attempt w =
      (Some (ReasonSetupLock ErrMachineID),
       snd (MachineID (snd (getClient (snd (etcdActive_call w))))))"
    and "handles (snd (unlockHeldLocks_attempt w)) = handles w"
    and "releases (snd (unlockHeldLocks_attempt w)) = releases w"
    by (simp_all add: attempt_cases release_cases setupLock_cases)
next
  assume "snd (snd (etcdActive (probes w 0))) = None \<and> fst (etcdActive (probes w 0)) \<and>
    clients w 0 = None \<and> machine_ids w 0 \<noteq> []"
  then have "release_attempted w" and "fst (etcdActive (probes w 0))"
    by (simp_all add: release_attempted_def)
  then show "trace (snd (unlockHeldLocks_attempt w)) =
      trace w @
      [EvEtcdActive (etcdActive (probes w 0)), EvGetClient None,
       EvMachineID (machine_ids w 0), EvLockNew (Lock_New (machine_ids w 0)),
       EvUnlock (Lock_New (machine_ids w 0)) (unlock_results w 0)] @
      (if unlock_results w 0 = None then [EvStdout MsgUnlockedExisting] else [])"
    by (simp add: attempt_released)
next
  show "releases (snd (unlockHeldLocks_attempt w)) =
     releases w + (if release_attempted w then 1 else 0)"
    by (rule releases_attempt)
next
  show "handles (snd (unlockHeldLocks_attempt w)) =
     handles w + (if release_attempted w then 1 else 0)"
    by (rule handles_attempt)
next
  assume "release_attempted w"
  then show "snd (snd (etcdActive (probes w 0))) = None" and "clients w 0 = None"
    by (simp_all add: release_attempted_def)
next
  assume "\<not> selects w 0 \<and>
    fst (unlockHeldLocks_attempt (snd (select_stop interval w))) = Some reason"
  then show "unlockHeldLocks_iteration interval w =
      Deferred (expBackoff interval)
        (Printf (MsgUnlockFailed reason (expBackoff interval))
           (snd (unlockHeldLocks_attempt (snd (select_stop interval w)))))"
    and "unlockHeldLocks_loop interval w =
      unlockHeldLocks_loop (expBackoff interval)
        (Printf (MsgUnlockFailed reason (expBackoff interval))
           (snd (unlockHeldLocks_attempt (snd (select_stop interval w)))))"
    by (simp_all add: iteration_defer unlockHeldLocks_loop_defer)
next
  assume "unlockHeldLocks_iterations n interval w = Returned w'"
  then show "unlockHeldLocks_loop interval w = Some w'"
    by (rule iterations_returned)
next
  assume "unlockHeldLocks_loop interval w = Some w'"
  then show "\<exists>m. unlockHeldLocks_iterations m interval w = Returned w'"
    by (rule loop_returns_iterations)
next
  assume "(\<forall>k<n. \<not> selects w k \<and> snd (snd (etcdActive (probes w k))) \<noteq> None) \<and> selects w n"
  then show "map_option trace (unlockHeldLocks_loop interval w) =
      Some (trace w @
            concat (map (\<lambda>k. [EvSelect ((expBackoff ^^ k) interval) False,
                              EvEtcdActive (etcdActive (probes w k)),
                              EvStdout (MsgUnlockFailed (ReasonStatus etcdServices)
                                          ((expBackoff ^^ Suc k) interval))]) [0..<n]) @
            [EvSelect ((expBackoff ^^ n) interval) True])"
    by (intro run_status) simp_all
next
  assume "(\<forall>k<n. \<not> selects w k \<and> snd (snd (etcdActive (probes w k))) = None \<and>
      \<not> fst (etcdActive (probes w k)) \<and> clients w k \<noteq> None) \<and> selects w n"
  then show "map_option trace (unlockHeldLocks_loop interval w) =
      Some (trace w @
            concat (map (\<lambda>k. [EvSelect ((expBackoff ^^ k) interval) False,
                              EvEtcdActive (etcdActive (probes w k)),
                              EvGetClient (clients w k),
                              EvStdout (MsgUnlockFailed (ReasonInactive etcdServices)
                                          ((expBackoff ^^ Suc k) interval))]) [0..<n]) @
            [EvSelect ((expBackoff ^^ n) interval) True])"
    by (intro run_store) simp_all
qed

theorem unlockHeldLocks_defers_witness:
  "fst (unlockHeldLocks_attempt world_no_bus) =
     Some (ReasonStatus [''etcd.service'', ''etcd2.service'']) \<and>
   handles (snd (unlockHeldLocks_attempt world_no_bus)) = 0 \<and>
   releases (snd (unlockHeldLocks_attempt world_no_bus)) = 0 \<and>
   fst (unlockHeldLocks_attempt world_no_store) =
     Some (ReasonInactive [''etcd.service'', ''etcd2.service'']) \<and>
   handles (snd (unlockHeldLocks_attempt world_no_store)) = 0 \<and>
   releases (snd (unlockHeldLocks_attempt world_no_store)) = 0 \<and>
   unlockHeldLocks_attempt world_active =
     unlockHeldLocks_release (snd (etcdActive_call world_active)) \<and>
   releases (snd (unlockHeldLocks_attempt world_active)) = 1 \<and>
   handles (snd (unlockHeldLocks_attempt world_active)) = 1 \<and>
   clients world_active 0 = None \<and>
   fst (unlockHeldLocks_attempt world_active_no_store) =
     Some (ReasonSetupLock (ErrEtcdClient (ErrExternal ''connection refused''))) \<and>
   handles (snd (unlockHeldLocks_attempt world_active_no_store)) = 0 \<and>
   releases (snd (unlockHeldLocks_attempt world_active_no_store)) = 0 \<and>
   fst (unlockHeldLocks_attempt world_active_no_id) = Some (ReasonSetupLock ErrMachineID) \<and>
   handles (snd (unlockHeldLocks_attempt world_active_no_id)) = 0 \<and>
   releases (snd (unlockHeldLocks_attempt world_active_no_id)) = 0 \<and>
   map_option trace (unlockHeldLocks_loop initialInterval world_active_no_store) =
     Some [EvSelect 5000000000 False, EvEtcdActive (True, ''etcd2.service'', None),
           EvGetClient (Some (ErrExternal ''connection refused'')),
           EvStdout (MsgUnlockFailed
                       (ReasonSetupLock (ErrEtcdClient (ErrExternal ''connection refused'')))
                       10000000000),
           EvSelect 10000000000 True] \<and>
   map_option trace (unlockHeldLocks_loop initialInterval world_no_bus_stop) =
     Some [EvSelect 5000000000 False,
           EvEtcdActive (False, [],
             Some (ErrExternal ''dial unix /var/run/dbus/system_bus_socket'')),
           EvStdout (MsgUnlockFailed (ReasonStatus [''etcd.service'', ''etcd2.service''])
                       10000000000),
           EvSelect 10000000000 False,
           EvEtcdActive (False, [],
             Some (ErrExternal ''dial unix /var/run/dbus/system_bus_socket'')),
           EvStdout (MsgUnlockFailed (ReasonStatus [''etcd.service'', ''etcd2.service''])
                       20000000000),
           EvSelect 20000000000 True] \<and>
   map_option trace (unlockHeldLocks_loop initialInterval world_no_store_stop) =
     Some [EvSelect 5000000000 False, EvEtcdActive (False, [], None),
           EvGetClient (Some (ErrExternal ''connection refused'')),
           EvStdout (MsgUnlockFailed (ReasonInactive [''etcd.service'', ''etcd2.service''])
                       10000000000),
           EvSelect 10000000000 False, EvEtcdActive (False, [], None),
           EvGetClient (Some (ErrExternal ''connection refused'')),
           EvStdout (MsgUnlockFailed (ReasonInactive [''etcd.service'', ''etcd2.service''])
                       20000000000),
           EvSelect 20000000000 True]"
proof -
  have inactive: "etcdActive systemd_inactive = (False, [], None)"
    by (simp add: systemd_inactive_def etcdActive_def etcdServices_def)
  have etcd2: "etcdActive systemd_etcd2 = (True, ''etcd2.service'', None)"
    by (simp add: systemd_etcd2_def etcdActive_def etcdServices_def)
  have no_bus: "etcdActive systemd_no_bus =
      (False, [], Some (ErrExternal ''dial unix /var/run/dbus/system_bus_socket''))"
    by (simp add: systemd_no_bus_def etcdActive_def)
  have first: "expBackoff initialInterval = 10000000000"
    by (simp add: expBackoff_def initialInterval_def maxInterval_def Minute_def Second_def
        Nanosecond_def word_sless_alt)
  have second: "expBackoff 10000000000 = 20000000000"
    by (simp add: expBackoff_def maxInterval_def Minute_def Second_def Nanosecond_def
        word_sless_alt)
  have initial: "initialInterval = 5000000000"
    by (simp add: initialInterval_def Second_def Nanosecond_def)
  have zero: "handles world_no_bus = 0" "releases world_no_bus = 0"
    "handles world_no_store = 0" "releases world_no_store = 0"
    "handles world_active = 0" "releases world_active = 0"
    "handles world_active_no_store = 0" "releases world_active_no_store = 0"
    "handles world_active_no_id = 0" "releases world_active_no_id = 0"
    by (simp_all add: handles_def releases_def world_no_bus_def world_no_store_def
        world_active_def world_active_no_store_def world_active_no_id_def world0_def)

  have bus: "snd (snd (etcdActive (probes world_no_bus 0))) \<noteq> None"
    by (simp add: world_no_bus_def no_bus)
  from unlockHeldLocks_defers [where w = world_no_bus] bus zero
  have a: "fst (unlockHeldLocks_attempt world_no_bus) = Some (ReasonStatus etcdServices) \<and>
      handles (snd (unlockHeldLocks_attempt world_no_bus)) = 0 \<and>
      releases (snd (unlockHeldLocks_attempt world_no_bus)) = 0"
    by simp

  have store: "snd (snd (etcdActive (probes world_no_store 0))) = None \<and>
      \<not> fst (etcdActive (probes world_no_store 0)) \<and> clients world_no_store 0 \<noteq> None"
    by (simp add: world_no_store_def world0_def inactive)
  from unlockHeldLocks_defers [where w = world_no_store] store zero
  have b: "fst (unlockHeldLocks_attempt world_no_store) = Some (ReasonInactive etcdServices) \<and>
      handles (snd (unlockHeldLocks_attempt world_no_store)) = 0 \<and>
      releases (snd (unlockHeldLocks_attempt world_no_store)) = 0"
    by simp

  have active: "snd (snd (etcdActive (probes world_active 0))) = None \<and>
      fst (etcdActive (probes world_active 0))"
    by (simp add: world_active_def etcd2)
  have attempted: "release_attempted world_active"
    using active by (simp add: release_attempted_def) (simp add: world_active_def world0_def)
  from unlockHeldLocks_defers [where w = world_active] active
  have c1: "unlockHeldLocks_attempt world_active =
      unlockHeldLocks_release (snd (etcdActive_call world_active))"
    by blast
  from unlockHeldLocks_defers [where w = world_active]
  have "releases (snd (unlockHeldLocks_attempt world_active)) =
      releases world_active + (if release_attempted world_active then 1 else 0)"
    and "handles (snd (unlockHeldLocks_attempt world_active)) =
      handles world_active + (if release_attempted world_active then 1 else 0)"
    by blast+
  with attempted zero have c2: "releases (snd (unlockHeldLocks_attempt world_active)) = 1"
    "handles (snd (unlockHeldLocks_attempt world_active)) = 1"
    by simp_all
  from unlockHeldLocks_defers [where w = world_active] attempted
  have c3: "clients world_active 0 = None"
    by blast

  let ?e = "ErrExternal ''connection refused''"
  have active_no_store: "snd (snd (etcdActive (probes world_active_no_store 0))) = None \<and>
      fst (etcdActive (probes world_active_no_store 0)) \<and>
      clients world_active_no_store 0 = Some ?e"
    by (simp add: world_active_no_store_def world_active_def etcd2)
  with unlockHeldLocks_defers [where w = world_active_no_store]
  have "unlockHeldLocks_attempt world_active_no_store =
        (Some (ReasonSetupLock (ErrEtcdClient ?e)),
         snd (getClient (snd (etcdActive_call world_active_no_store)))) \<and>
      handles (snd (unlockHeldLocks_attempt world_active_no_store)) = handles world_active_no_store \<and>
      releases (snd (unlockHeldLocks_attempt world_active_no_store)) =
        releases world_active_no_store"
    by blast
  with zero have d: "fst (unlockHeldLocks_attempt world_active_no_store) =
        Some (ReasonSetupLock (ErrEtcdClient ?e)) \<and>
      handles (snd (unlockHeldLocks_attempt world_active_no_store)) = 0 \<and>
      releases (snd (unlockHeldLocks_attempt world_active_no_store)) = 0"
    by simp

  have active_no_id: "snd (snd (etcdActive (probes world_active_no_id 0))) = None \<and>
      fst (etcdActive (probes world_active_no_id 0)) \<and>
      clients world_active_no_id 0 = None \<and> machine_ids world_active_no_id 0 = []"
    by (simp add: world_active_no_id_def world_active_def world0_def etcd2)
  with unlockHeldLocks_defers [where w = world_active_no_id]
  have "unlockHeldLocks_attempt world_active_no_id =
        (Some (ReasonSetupLock ErrMachineID),
         snd (MachineID (snd (getClient (snd (etcdActive_call world_active_no_id)))))) \<and>
      handles (snd (unlockHeldLocks_attempt world_active_no_id)) = handles world_active_no_id \<and>
      releases (snd (unlockHeldLocks_attempt world_active_no_id)) = releases world_active_no_id"
    by blast
  with zero have e: "fst (unlockHeldLocks_attempt world_active_no_id) =
        Some (ReasonSetupLock ErrMachineID) \<and>
      handles (snd (unlockHeldLocks_attempt world_active_no_id)) = 0 \<and>
      releases (snd (unlockHeldLocks_attempt world_active_no_id)) = 0"
    by simp

  let ?w0 = "snd (select_stop initialInterval world_active_no_store)"
  let ?w1 = "Printf (MsgUnlockFailed (ReasonSetupLock (ErrEtcdClient ?e)) (expBackoff initialInterval))
      (snd (unlockHeldLocks_attempt ?w0))"
  let ?w2 = "snd (select_stop (expBackoff initialInterval) ?w1)"
  have timer: "\<not> selects world_active_no_store 0"
    by (simp add: world_active_no_store_def)
  have again: "unlockHeldLocks_attempt ?w0 =
      (Some (ReasonSetupLock (ErrEtcdClient ?e)), snd (getClient (snd (etcdActive_call ?w0))))"
    using active_no_store by (simp add: attempt_cases release_cases setupLock_cases)
  with unlockHeldLocks_defers [where w = world_active_no_store and interval = initialInterval
      and reason = "ReasonSetupLock (ErrEtcdClient ?e)"] timer
  have pass: "unlockHeldLocks_iteration initialInterval world_active_no_store =
      Deferred (expBackoff initialInterval) ?w1"
    by simp
  have "selects ?w1 0"
    by (simp add: again) (simp add: world_active_no_store_def)
  then have "unlockHeldLocks_iteration (expBackoff initialInterval) ?w1 = Returned ?w2"
    by (rule iteration_stop)
  with pass have "unlockHeldLocks_iterations 2 initialInterval world_active_no_store =
      Returned ?w2"
    by (simp add: numeral_2_eq_2)
  with unlockHeldLocks_defers [where w = world_active_no_store and interval = initialInterval
      and n = 2 and w' = ?w2]
  have "unlockHeldLocks_loop initialInterval world_active_no_store = Some ?w2"
    by blast
  then have f: "map_option trace (unlockHeldLocks_loop initialInterval world_active_no_store) =
     Some [EvSelect 5000000000 False, EvEtcdActive (True, ''etcd2.service'', None),
           EvGetClient (Some ?e),
           EvStdout (MsgUnlockFailed (ReasonSetupLock (ErrEtcdClient ?e)) 10000000000),
           EvSelect 10000000000 True]"
    by (simp add: again first)
      (simp add: world_active_no_store_def world_active_def world0_def etcd2 initial)

  have "(\<forall>k<2. \<not> selects world_no_bus_stop k \<and>
        snd (snd (etcdActive (probes world_no_bus_stop k))) \<noteq> None) \<and>
      selects world_no_bus_stop 2"
    by (simp add: world_no_bus_stop_def world_no_bus_def no_bus)
  with unlockHeldLocks_defers [where w = world_no_bus_stop and interval = initialInterval
      and n = 2]
  have "map_option trace (unlockHeldLocks_loop initialInterval world_no_bus_stop) =
      Some (trace world_no_bus_stop @
            concat (map (\<lambda>k. [EvSelect ((expBackoff ^^ k) initialInterval) False,
                              EvEtcdActive (etcdActive (probes world_no_bus_stop k)),
                              EvStdout (MsgUnlockFailed (ReasonStatus etcdServices)
                                          ((expBackoff ^^ Suc k) initialInterval))]) [0..<2]) @
            [EvSelect ((expBackoff ^^ 2) initialInterval) True])"
    by blast
  then have g: "map_option trace (unlockHeldLocks_loop initialInterval world_no_bus_stop) =
     Some [EvSelect 5000000000 False,
           EvEtcdActive (False, [],
             Some (ErrExternal ''dial unix /var/run/dbus/system_bus_socket'')),
           EvStdout (MsgUnlockFailed (ReasonStatus [''etcd.service'', ''etcd2.service''])
                       10000000000),
           EvSelect 10000000000 False,
           EvEtcdActive (False, [],
             Some (ErrExternal ''dial unix /var/run/dbus/system_bus_socket'')),
           EvStdout (MsgUnlockFailed (ReasonStatus [''etcd.service'', ''etcd2.service''])
                       20000000000),
           EvSelect 20000000000 True]"
    by (simp add: numeral_2_eq_2 first second)
      (simp add: world_no_bus_stop_def world_no_bus_def world0_def no_bus initial
        etcdServices_def)

  have "(\<forall>k<2. \<not> selects world_no_store_stop k \<and>
        snd (snd (etcdActive (probes world_no_store_stop k))) = None \<and>
        \<not> fst (etcdActive (probes world_no_store_stop k)) \<and>
        clients world_no_store_stop k \<noteq> None) \<and>
      selects world_no_store_stop 2"
    by (simp add: world_no_store_stop_def world_no_store_def world0_def inactive)
  with unlockHeldLocks_defers [where w = world_no_store_stop and interval = initialInterval
      and n = 2]
  have "map_option trace (unlockHeldLocks_loop initialInterval world_no_store_stop) =
      Some (trace world_no_store_stop @
            concat (map (\<lambda>k. [EvSelect ((expBackoff ^^ k) initialInterval) False,
                              EvEtcdActive (etcdActive (probes world_no_store_stop k)),
                              EvGetClient (clients world_no_store_stop k),
                              EvStdout (MsgUnlockFailed (ReasonInactive etcdServices)
                                          ((expBackoff ^^ Suc k) initialInterval))]) [0..<2]) @
            [EvSelect ((expBackoff ^^ 2) initialInterval) True])"
    by blast
  then have h: "map_option trace (unlockHeldLocks_loop initialInterval world_no_store_stop) =
     Some [EvSelect 5000000000 False, EvEtcdActive (False, [], None),
           EvGetClient (Some (ErrExternal ''connection refused'')),
           EvStdout (MsgUnlockFailed (ReasonInactive [''etcd.service'', ''etcd2.service''])
                       10000000000),
           EvSelect 10000000000 False, EvEtcdActive (False, [], None),
           EvGetClient (Some (ErrExternal ''connection refused'')),
           EvStdout (MsgUnlockFailed (ReasonInactive [''etcd.service'', ''etcd2.service''])
                       20000000000),
           EvSelect 20000000000 True]"
    by (simp add: numeral_2_eq_2 first second)
      (simp add: world_no_store_stop_def world_no_store_def world0_def inactive initial
        etcdServices_def)

  from a b c1 c2 c3 d e f g h show ?thesis
    by (simp add: etcdServices_def)
qed

lemma unlockHeldLocks_loop_once:
  "unlockHeldLocks_loop interval w = Some w' \<Longrightarrow>
   (\<forall>k. unlock_results w k = Some ErrNotExist \<or> unlock_results w k = None) \<longrightarrow>
   releases w' \<le> Suc (releases w)"
proof (induction rule: unlockHeldLocks_loop.raw_induct [rotated 1, consumes 1])
  case (1 loop interval w w')
  let ?w0 = "snd (select_stop interval w)"
  let ?w1 = "snd (unlockHeldLocks_attempt ?w0)"
  show ?case
  proof (intro impI)
    assume held: "\<forall>k. unlock_results w k = Some ErrNotExist \<or> unlock_results w k = None"
    show "releases w' \<le> Suc (releases w)"
    proof (cases "selects w 0")
      case True
      with 1(2) have "w' = ?w0"
        by (simp add: case_prod_beta)
      then show ?thesis by simp
    next
      case False
      show ?thesis
      proof (cases "fst (unlockHeldLocks_attempt ?w0)")
        case None
        with False 1(2) have "w' = ?w1"
          by (simp add: case_prod_beta)
        then show ?thesis
          by (simp add: releases_attempt)
      next
        case (Some reason)
        let ?w2 = "Printf (MsgUnlockFailed reason (expBackoff interval)) ?w1"
        from Some held have no: "\<not> release_attempted w"
          using fst_attempt_released [of ?w0] by auto
        from False Some 1(2) have "loop (expBackoff interval) ?w2 = Some w'"
          by (simp add: case_prod_beta Let_def)
        moreover from no held
        have "\<forall>k. unlock_results ?w2 k = Some ErrNotExist \<or> unlock_results ?w2 k = None"
          by (simp add: unlock_results_attempt)
        ultimately have "releases w' \<le> Suc (releases ?w2)"
          using 1(1) by blast
        with no show ?thesis
          by (simp add: releases_attempt)
      qed
    qed
  qed
qed

text \<open>
  C6: in an iteration of the reaper that gets to \<^verbatim>\<open>lck.Unlock()\<close>, an outcome of
  \<open>ErrNotExist\<close> or \<open>nil\<close> makes the loop return there, with that one release; any other
  outcome is the reason of a deferral: the pass ends with the error printed and the
  interval backed off, in the world the attempt left, and the loop makes the next pass
  from there. So when no lock is held, every release giving \<open>ErrNotExist\<close> (or \<open>nil\<close>), a
  reaper that returns has attempted release at most once; and when the first \<open>n\<close>
  releases fail with other errors and the next gives \<open>ErrNotExist\<close> or \<open>nil\<close>, the store
  being reachable throughout, the reaper returns after \<open>n + 1\<close> releases, having printed
  the \<open>n\<close> errors with the backed-off intervals.
\<close>

theorem unlockHeldLocks_release_outcome:
  "(\<not> selects w 0 \<and> release_attempted w \<and>
    (unlock_results w 0 = Some ErrNotExist \<or> unlock_results w 0 = None) \<longrightarrow>
      (\<exists>w'. unlockHeldLocks_loop interval w = Some w' \<and> releases w' = Suc (releases w) \<and>
            unlockHeldLocks w = Some (emit EvWgDone (the (unlockHeldLocks_loop initialInterval w)))) \<and>
      unlockHeldLocks_loop interval w =
        Some (snd (unlockHeldLocks_attempt (snd (select_stop interval w))))) \<and>
   (\<forall>e. \<not> selects w 0 \<and> release_attempted w \<and> unlock_results w 0 = Some e \<and>
        e \<noteq> ErrNotExist \<longrightarrow>
      fst (unlockHeldLocks_attempt (snd (select_stop interval w))) = Some (ReasonError e) \<and>
      releases (snd (unlockHeldLocks_attempt (snd (select_stop interval w)))) =
        Suc (releases w) \<and>
      unlockHeldLocks_iteration interval w =
        Deferred (expBackoff interval)
          (Printf (MsgUnlockFailed (ReasonError e) (expBackoff interval))
             (snd (unlockHeldLocks_attempt (snd (select_stop interval w))))) \<and>
      unlockHeldLocks_loop interval w =
        unlockHeldLocks_loop (expBackoff interval)
          (Printf (MsgUnlockFailed (ReasonError e) (expBackoff interval))
             (snd (unlockHeldLocks_attempt (snd (select_stop interval w)))))) \<and>
   ((\<forall>k. unlock_results w k = Some ErrNotExist \<or> unlock_results w k = None) \<and>
    unlockHeldLocks w = Some w2 \<longrightarrow>
      releases w2 \<le> Suc (releases w)) \<and>
   ((\<forall>j. clients w j = None) \<and>
    (\<forall>k\<le>n. \<not> selects w k \<and> snd (snd (etcdActive (probes w k))) = None \<and>
            machine_ids w k \<noteq> []) \<and>
    (\<forall>k<n. release_fails (unlock_results w k)) \<and> \<not> release_fails (unlock_results w n) \<longrightarrow>
      map_option trace (unlockHeldLocks_loop interval w) =
        Some (trace w @
              concat (map (\<lambda>k. release_pass ((expBackoff ^^ k) interval) (probes w k)
                                  (machine_ids w k) (unlock_results w k) @
                                [EvStdout (MsgUnlockFailed
                                             (ReasonError (the (unlock_results w k)))
                                             ((expBackoff ^^ Suc k) interval))]) [0..<n]) @
              release_pass ((expBackoff ^^ n) interval) (probes w n) (machine_ids w n)
                (unlock_results w n) @
              (if unlock_results w n = None then [EvStdout MsgUnlockedExisting] else [])) \<and>
      map_option releases (unlockHeldLocks_loop interval w) = Some (releases w + Suc n))"
proof (intro conjI impI allI)
  assume a: "\<not> selects w 0 \<and> release_attempted w \<and>
    (unlock_results w 0 = Some ErrNotExist \<or> unlock_results w 0 = None)"
  have returned: "unlockHeldLocks_loop i w =
      Some (snd (unlockHeldLocks_attempt (snd (select_stop i w))))" for i
    using a fst_attempt_released [of "snd (select_stop i w)"]
    by (intro unlockHeldLocks_loop_return) auto
  have "releases (snd (unlockHeldLocks_attempt (snd (select_stop interval w)))) =
      Suc (releases w)"
    using a by (simp add: releases_attempt)
  with returned show "\<exists>w'. unlockHeldLocks_loop interval w = Some w' \<and>
      releases w' = Suc (releases w) \<and>
      unlockHeldLocks w = Some (emit EvWgDone (the (unlockHeldLocks_loop initialInterval w)))"
    by (simp add: unlockHeldLocks_def)
  from returned show "unlockHeldLocks_loop interval w =
      Some (snd (unlockHeldLocks_attempt (snd (select_stop interval w))))" .
next
  fix e
  assume a: "\<not> selects w 0 \<and> release_attempted w \<and> unlock_results w 0 = Some e \<and>
    e \<noteq> ErrNotExist"
  let ?w1 = "snd (unlockHeldLocks_attempt (snd (select_stop interval w)))"
  from a show reason: "fst (unlockHeldLocks_attempt (snd (select_stop interval w))) =
      Some (ReasonError e)"
    using fst_attempt_released [of "snd (select_stop interval w)"] by simp
  from a show "releases ?w1 = Suc (releases w)"
    by (simp add: releases_attempt)
  from a reason show "unlockHeldLocks_iteration interval w =
      Deferred (expBackoff interval)
        (Printf (MsgUnlockFailed (ReasonError e) (expBackoff interval)) ?w1)"
    by (simp add: iteration_defer)
  from a reason show "unlockHeldLocks_loop interval w =
      unlockHeldLocks_loop (expBackoff interval)
        (Printf (MsgUnlockFailed (ReasonError e) (expBackoff interval)) ?w1)"
    by (simp add: unlockHeldLocks_loop_defer)
next
  assume a: "(\<forall>k. unlock_results w k = Some ErrNotExist \<or> unlock_results w k = None) \<and>
    unlockHeldLocks w = Some w2"
  then obtain w1 where "unlockHeldLocks_loop initialInterval w = Some w1"
    and "w2 = emit EvWgDone w1"
    by (auto simp: unlockHeldLocks_def split: option.splits)
  with a unlockHeldLocks_loop_once [of initialInterval w w1]
  show "releases w2 \<le> Suc (releases w)"
    by (simp add: count_emit)
next
  assume a: "(\<forall>j. clients w j = None) \<and>
    (\<forall>k\<le>n. \<not> selects w k \<and> snd (snd (etcdActive (probes w k))) = None \<and>
            machine_ids w k \<noteq> []) \<and>
    (\<forall>k<n. release_fails (unlock_results w k)) \<and> \<not> release_fails (unlock_results w n)"
  then have run: "\<forall>j. clients w j = None"
    "\<forall>k\<le>n. \<not> selects w k \<and> snd (snd (etcdActive (probes w k))) = None \<and>
      machine_ids w k \<noteq> []"
    "\<forall>k<n. release_fails (unlock_results w k)" "\<not> release_fails (unlock_results w n)"
    by blast+
  from run_release [OF run, of interval]
  show "map_option trace (unlockHeldLocks_loop interval w) =
      Some (trace w @
            concat (map (\<lambda>k. release_pass ((expBackoff ^^ k) interval) (probes w k)
                                (machine_ids w k) (unlock_results w k) @
                              [EvStdout (MsgUnlockFailed
                                           (ReasonError (the (unlock_results w k)))
                                           ((expBackoff ^^ Suc k) interval))]) [0..<n]) @
            release_pass ((expBackoff ^^ n) interval) (probes w n) (machine_ids w n)
              (unlock_results w n) @
            (if unlock_results w n = None then [EvStdout MsgUnlockedExisting] else []))"
    and "map_option releases (unlockHeldLocks_loop interval w) = Some (releases w + Suc n)"
    by blast+
qed

theorem unlockHeldLocks_release_outcome_witness:
  "map_option releases (unlockHeldLocks world0) = Some 1 \<and>
   last (trace (the (unlockHeldLocks world0))) = EvWgDone \<and>
   map_option releases (unlockHeldLocks_loop initialInterval world_unlock_retry) = Some 2 \<and>
   releases (the (unlockHeldLocks world0)) \<le> 1 \<and>
   fst (unlockHeldLocks_attempt (snd (select_stop initialInterval world_unlock_retry))) =
     Some (ReasonError (ErrExternal ''timeout'')) \<and>
   map_option releases (unlockHeldLocks_loop initialInterval world_unlock_twice) = Some 3 \<and>
   map_option trace (unlockHeldLocks_loop initialInterval world_unlock_twice) =
     Some [EvSelect 5000000000 False, EvEtcdActive (False, [], None),
           EvGetClient None, EvGetClient None,
           EvMachineID ''2b1a7e1d3c4f4a5b8c6d7e8f9a0b1c2d'',
           EvLockNew (Lock_New ''2b1a7e1d3c4f4a5b8c6d7e8f9a0b1c2d''),
           EvUnlock (Lock_New ''2b1a7e1d3c4f4a5b8c6d7e8f9a0b1c2d'')
             (Some (ErrExternal ''timeout'')),
           EvStdout (MsgUnlockFailed (ReasonError (ErrExternal ''timeout'')) 10000000000),
           EvSelect 10000000000 False, EvEtcdActive (False, [], None),
           EvGetClient None, EvGetClient None,
           EvMachineID ''2b1a7e1d3c4f4a5b8c6d7e8f9a0b1c2d'',
           EvLockNew (Lock_New ''2b1a7e1d3c4f4a5b8c6d7e8f9a0b1c2d''),
           EvUnlock (Lock_New ''2b1a7e1d3c4f4a5b8c6d7e8f9a0b1c2d'')
             (Some (ErrExternal ''timeout'')),
           EvStdout (MsgUnlockFailed (ReasonError (ErrExternal ''timeout'')) 20000000000),
           EvSelect 20000000000 False, EvEtcdActive (False, [], None),
           EvGetClient None, EvGetClient None,
           EvMachineID ''2b1a7e1d3c4f4a5b8c6d7e8f9a0b1c2d'',
           EvLockNew (Lock_New ''2b1a7e1d3c4f4a5b8c6d7e8f9a0b1c2d''),
           EvUnlock (Lock_New ''2b1a7e1d3c4f4a5b8c6d7e8f9a0b1c2d'') (Some ErrNotExist)]"
proof -
  have zero: "releases world0 = 0" "releases world_unlock_retry = 0"
    "releases world_unlock_twice = 0"
    by (simp_all add: releases_def world_unlock_retry_def world_unlock_twice_def world0_def)
  have probe: "etcdActive systemd_inactive = (False, [], None)"
    by (simp add: systemd_inactive_def etcdActive_def etcdServices_def)
  have first: "expBackoff initialInterval = 10000000000"
    by (simp add: expBackoff_def initialInterval_def maxInterval_def Minute_def Second_def
        Nanosecond_def word_sless_alt)
  have second: "expBackoff 10000000000 = 20000000000"
    by (simp add: expBackoff_def maxInterval_def Minute_def Second_def Nanosecond_def
        word_sless_alt)
  have initial: "initialInterval = 5000000000"
    by (simp add: initialInterval_def Second_def Nanosecond_def)

  have held: "\<not> selects world0 0 \<and> release_attempted world0 \<and>
      (unlock_results world0 0 = Some ErrNotExist \<or> unlock_results world0 0 = None)"
    by (simp add: release_attempted_def world0_def probe)
  from unlockHeldLocks_release_outcome [where w = world0 and interval = initialInterval] held
  obtain w' where w': "unlockHeldLocks_loop initialInterval world0 = Some w'"
    "releases w' = Suc (releases world0)"
    "unlockHeldLocks world0 = Some (emit EvWgDone (the (unlockHeldLocks_loop initialInterval world0)))"
    by blast
  then have one: "map_option releases (unlockHeldLocks world0) = Some 1 \<and>
      last (trace (the (unlockHeldLocks world0))) = EvWgDone"
    using zero by (simp add: count_emit)
  have "\<forall>k. unlock_results world0 k = Some ErrNotExist \<or> unlock_results world0 k = None"
    by (simp add: world0_def)
  with unlockHeldLocks_release_outcome [where w = world0
      and ?w2.0 = "emit EvWgDone (the (unlockHeldLocks_loop initialInterval world0))"] w'(3)
  have "releases (emit EvWgDone (the (unlockHeldLocks_loop initialInterval world0))) \<le>
      Suc (releases world0)"
    by blast
  with w'(3) zero have most: "releases (the (unlockHeldLocks world0)) \<le> 1"
    by simp

  let ?e = "ErrExternal ''timeout''"
  have retry: "\<not> selects world_unlock_retry 0 \<and> release_attempted world_unlock_retry \<and>
      unlock_results world_unlock_retry 0 = Some ?e \<and> ?e \<noteq> ErrNotExist"
    by (simp add: release_attempted_def world_unlock_retry_def world0_def probe)
  with unlockHeldLocks_release_outcome [where w = world_unlock_retry
      and interval = initialInterval]
  have reason: "fst (unlockHeldLocks_attempt (snd (select_stop initialInterval world_unlock_retry))) =
      Some (ReasonError ?e)"
    by blast
  have "(\<forall>j. clients world_unlock_retry j = None) \<and>
      (\<forall>k\<le>1. \<not> selects world_unlock_retry k \<and>
          snd (snd (etcdActive (probes world_unlock_retry k))) = None \<and>
          machine_ids world_unlock_retry k \<noteq> []) \<and>
      (\<forall>k<1. release_fails (unlock_results world_unlock_retry k)) \<and>
      \<not> release_fails (unlock_results world_unlock_retry 1)"
    by (simp add: world_unlock_retry_def world0_def probe release_fails_def)
  with unlockHeldLocks_release_outcome [where w = world_unlock_retry
      and interval = initialInterval and n = 1]
  have "map_option releases (unlockHeldLocks_loop initialInterval world_unlock_retry) =
      Some (releases world_unlock_retry + Suc 1)"
    by blast
  with zero have two: "map_option releases
      (unlockHeldLocks_loop initialInterval world_unlock_retry) = Some 2"
    by (simp add: numeral_2_eq_2)

  have "(\<forall>j. clients world_unlock_twice j = None) \<and>
      (\<forall>k\<le>2. \<not> selects world_unlock_twice k \<and>
          snd (snd (etcdActive (probes world_unlock_twice k))) = None \<and>
          machine_ids world_unlock_twice k \<noteq> []) \<and>
      (\<forall>k<2. release_fails (unlock_results world_unlock_twice k)) \<and>
      \<not> release_fails (unlock_results world_unlock_twice 2)"
    by (simp add: world_unlock_twice_def world0_def probe release_fails_def)
  with unlockHeldLocks_release_outcome [where w = world_unlock_twice
      and interval = initialInterval and n = 2]
  have run: "map_option trace (unlockHeldLocks_loop initialInterval world_unlock_twice) =
        Some (trace world_unlock_twice @
              concat (map (\<lambda>k. release_pass ((expBackoff ^^ k) initialInterval)
                                  (probes world_unlock_twice k)
                                  (machine_ids world_unlock_twice k)
                                  (unlock_results world_unlock_twice k) @
                                [EvStdout (MsgUnlockFailed
                                             (ReasonError (the (unlock_results world_unlock_twice k)))
                                             ((expBackoff ^^ Suc k) initialInterval))]) [0..<2]) @
              release_pass ((expBackoff ^^ 2) initialInterval) (probes world_unlock_twice 2)
                (machine_ids world_unlock_twice 2) (unlock_results world_unlock_twice 2) @
              (if unlock_results world_unlock_twice 2 = None
               then [EvStdout MsgUnlockedExisting] else []))"
    and count: "map_option releases (unlockHeldLocks_loop initialInterval world_unlock_twice) =
        Some (releases world_unlock_twice + Suc 2)"
    by blast+
  from count zero have three:
    "map_option releases (unlockHeldLocks_loop initialInterval world_unlock_twice) = Some 3"
    by (simp add: numeral_3_eq_3 numeral_2_eq_2)
  from run have pinned:
    "map_option trace (unlockHeldLocks_loop initialInterval world_unlock_twice) =
     Some [EvSelect 5000000000 False, EvEtcdActive (False, [], None),
           EvGetClient None, EvGetClient None,
           EvMachineID ''2b1a7e1d3c4f4a5b8c6d7e8f9a0b1c2d'',
           EvLockNew (Lock_New ''2b1a7e1d3c4f4a5b8c6d7e8f9a0b1c2d''),
           EvUnlock (Lock_New ''2b1a7e1d3c4f4a5b8c6d7e8f9a0b1c2d'') (Some ?e),
           EvStdout (MsgUnlockFailed (ReasonError ?e) 10000000000),
           EvSelect 10000000000 False, EvEtcdActive (False, [], None),
           EvGetClient None, EvGetClient None,
           EvMachineID ''2b1a7e1d3c4f4a5b8c6d7e8f9a0b1c2d'',
           EvLockNew (Lock_New ''2b1a7e1d3c4f4a5b8c6d7e8f9a0b1c2d''),
           EvUnlock (Lock_New ''2b1a7e1d3c4f4a5b8c6d7e8f9a0b1c2d'') (Some ?e),
           EvStdout (MsgUnlockFailed (ReasonError ?e) 20000000000),
           EvSelect 20000000000 False, EvEtcdActive (False, [], None),
           EvGetClient None, EvGetClient None,
           EvMachineID ''2b1a7e1d3c4f4a5b8c6d7e8f9a0b1c2d'',
           EvLockNew (Lock_New ''2b1a7e1d3c4f4a5b8c6d7e8f9a0b1c2d''),
           EvUnlock (Lock_New ''2b1a7e1d3c4f4a5b8c6d7e8f9a0b1c2d'') (Some ErrNotExist)]"
    by (simp add: numeral_2_eq_2 first second)
      (simp add: world_unlock_twice_def world0_def probe initial release_pass_def
        numeral_2_eq_2)
  from one two most reason three pinned show ?thesis
    by simp
qed

subsection \<open>The orchestrator's window configuration\<close>

lemma Fprint_stderr_trace: "Fprint_stderr m w = w\<lparr>trace := trace w @ [EvStderr m]\<rparr>"
  by (simp add: Fprint_stderr_def emit_def)

text \<open>
  C8, as stated: in every environment with exactly one of \<^verbatim>\<open>REBOOT_WINDOW_START\<close> and
  \<^verbatim>\<open>REBOOT_WINDOW_LENGTH\<close> set, the daemon exits with status 1. The strategy is read
  first: with \<^verbatim>\<open>REBOOT_STRATEGY=off\<close> and only the start set, \<open>runDaemon\<close> returns 0
  before it looks at the window.
\<close>

theorem runDaemon_off_counterexample:
  "environ env_off_partial ''REBOOT_STRATEGY'' = Some ''off'' \<and>
   environ env_off_partial ''REBOOT_WINDOW_START'' = Some ''02:00'' \<and>
   environ env_off_partial ''REBOOT_WINDOW_LENGTH'' = None \<and>
   runDaemon env_off_partial world0 =
     Some (0, world0\<lparr>trace := [EvStderr (MsgStrategyOff ''off'')]\<rparr>)"
  by (simp add: env_off_partial_def env0_def runDaemon_def runDaemon_strategy_def Getenv_def
      StrategyOff_def Fprint_stderr_trace world0_def)

text \<open>
  C8, amended: in every environment whose strategy is not \<open>off\<close>, when exactly one of
  the two window variables is set (non-empty, which is all \<^verbatim>\<open>os.Getenv\<close> tells), or both
  are set and \<^verbatim>\<open>ParsePeriodic\<close> fails, \<open>runDaemon\<close> returns 1 having only written the
  error line: no collaborator is connected to. When neither is set, the daemon goes on
  with no period, and with no period nothing waits for a window. With strategy \<open>off\<close>
  it returns 0 before the window is read.
\<close>

theorem runDaemon_window_config:
  "(runDaemon_strategy de \<noteq> StrategyOff \<longrightarrow>
      ((Getenv de ''REBOOT_WINDOW_START'' = '''') \<noteq> (Getenv de ''REBOOT_WINDOW_LENGTH'' = '''') \<longrightarrow>
         runDaemon de w = Some (1, w\<lparr>trace := trace w @ [EvStderr MsgWindowBothOrNeither]\<rparr>)) \<and>
      (\<forall>err. Getenv de ''REBOOT_WINDOW_START'' \<noteq> '''' \<and>
             Getenv de ''REBOOT_WINDOW_LENGTH'' \<noteq> '''' \<and>
             ParsePeriodic de (Getenv de ''REBOOT_WINDOW_START'')
               (Getenv de ''REBOOT_WINDOW_LENGTH'') = Inl err \<longrightarrow>
         runDaemon de w = Some (1, w\<lparr>trace := trace w @ [EvStderr (MsgWindowParse err)]\<rparr>)) \<and>
      (Getenv de ''REBOOT_WINDOW_START'' = '''' \<and> Getenv de ''REBOOT_WINDOW_LENGTH'' = '''' \<longrightarrow>
         runDaemon de w = runDaemon_run de (runDaemon_strategy de) None w)) \<and>
   runDaemon_window de None w = w \<and>
   (runDaemon_strategy de = StrategyOff \<longrightarrow>
      runDaemon de w = Some (0, w\<lparr>trace := trace w @ [EvStderr (MsgStrategyOff StrategyOff)]\<rparr>))"
proof (intro conjI impI allI)
  assume "runDaemon_strategy de \<noteq> StrategyOff"
    and "(Getenv de ''REBOOT_WINDOW_START'' = '''') \<noteq> (Getenv de ''REBOOT_WINDOW_LENGTH'' = '''')"
  then show "runDaemon de w =
      Some (1, w\<lparr>trace := trace w @ [EvStderr MsgWindowBothOrNeither]\<rparr>)"
    by (simp add: runDaemon_def Let_def Fprint_stderr_trace)
next
  fix err
  assume "runDaemon_strategy de \<noteq> StrategyOff"
    and "Getenv de ''REBOOT_WINDOW_START'' \<noteq> '''' \<and>
      Getenv de ''REBOOT_WINDOW_LENGTH'' \<noteq> '''' \<and>
      ParsePeriodic de (Getenv de ''REBOOT_WINDOW_START'')
        (Getenv de ''REBOOT_WINDOW_LENGTH'') = Inl err"
  then show "runDaemon de w = Some (1, w\<lparr>trace := trace w @ [EvStderr (MsgWindowParse err)]\<rparr>)"
    by (simp add: runDaemon_def Let_def Fprint_stderr_trace)
next
  assume "runDaemon_strategy de \<noteq> StrategyOff"
    and "Getenv de ''REBOOT_WINDOW_START'' = '''' \<and> Getenv de ''REBOOT_WINDOW_LENGTH'' = ''''"
  then show "runDaemon de w = runDaemon_run de (runDaemon_strategy de) None w"
    by (simp add: runDaemon_def Let_def)
next
  show "runDaemon_window de None w = w"
    by (simp add: runDaemon_window_def)
next
  assume "runDaemon_strategy de = StrategyOff"
  then show "runDaemon de w =
      Some (0, w\<lparr>trace := trace w @ [EvStderr (MsgStrategyOff StrategyOff)]\<rparr>)"
    by (simp add: runDaemon_def Let_def Fprint_stderr_trace)
qed

theorem runDaemon_window_config_witness:
  "runDaemon env_partial world0 = Some (1, world0\<lparr>trace := [EvStderr MsgWindowBothOrNeither]\<rparr>) \<and>
   runDaemon env_malformed world0 =
     Some (1, world0\<lparr>trace := [EvStderr (MsgWindowParse (ErrExternal ''invalid start''))]\<rparr>) \<and>
   runDaemon env0 world0 = runDaemon_run env0 ''best-effort'' None world0 \<and>
   runDaemon_window env0 None world0 = world0 \<and>
   map_option fst (runDaemon env_off_partial world_logins) = Some 0"
proof -
  have strategies: "runDaemon_strategy env_partial = ''best-effort''"
    "runDaemon_strategy env_malformed = ''best-effort''"
    "runDaemon_strategy env0 = ''best-effort''"
    by (simp_all add: runDaemon_strategy_def Getenv_def env_partial_def env_malformed_def
        env0_def StrategyBestEffort_def)
  have partial: "(Getenv env_partial ''REBOOT_WINDOW_START'' = '''') \<noteq>
      (Getenv env_partial ''REBOOT_WINDOW_LENGTH'' = '''')"
    by (simp add: Getenv_def env_partial_def env0_def)
  have malformed: "Getenv env_malformed ''REBOOT_WINDOW_START'' \<noteq> '''' \<and>
      Getenv env_malformed ''REBOOT_WINDOW_LENGTH'' \<noteq> '''' \<and>
      ParsePeriodic env_malformed (Getenv env_malformed ''REBOOT_WINDOW_START'')
        (Getenv env_malformed ''REBOOT_WINDOW_LENGTH'') = Inl (ErrExternal ''invalid start'')"
    by (simp add: Getenv_def env_malformed_def env0_def)
  have neither: "Getenv env0 ''REBOOT_WINDOW_START'' = '''' \<and>
      Getenv env0 ''REBOOT_WINDOW_LENGTH'' = ''''"
    by (simp add: Getenv_def env0_def)
  have start: "trace world0 = []"
    by (simp add: world0_def)
  from runDaemon_window_config [of env_partial world0] strategies partial
  have "runDaemon env_partial world0 =
      Some (1, world0\<lparr>trace := trace world0 @ [EvStderr MsgWindowBothOrNeither]\<rparr>)"
    by (simp add: StrategyOff_def)
  moreover from runDaemon_window_config [of env_malformed world0] strategies malformed
  have "runDaemon env_malformed world0 =
      Some (1, world0\<lparr>trace := trace world0 @
        [EvStderr (MsgWindowParse (ErrExternal ''invalid start''))]\<rparr>)"
    by (simp add: StrategyOff_def)
  moreover from runDaemon_window_config [of env0 world0] strategies neither
  have "runDaemon env0 world0 = runDaemon_run env0 ''best-effort'' None world0"
    by (simp add: StrategyOff_def)
  moreover from runDaemon_window_config [of env0 world0]
  have "runDaemon_window env0 None world0 = world0"
    by blast
  moreover have "runDaemon_strategy env_off_partial = StrategyOff"
    by (simp add: runDaemon_strategy_def Getenv_def env_off_partial_def env0_def StrategyOff_def)
  with runDaemon_window_config [of env_off_partial world_logins]
  have "map_option fst (runDaemon env_off_partial world_logins) = Some 0"
    by simp
  ultimately show ?thesis
    using start by simp
qed

end
